theory Spec2Isabelle
  imports Main
begin

section \<open>The SSO connector library of \<^verbatim>\<open>packages/core/src/libraries/sso-connector.ts\<close>\<close>

text \<open>
  The library is created from a \<^verbatim>\<open>Queries\<close> object and offers seven asynchronous
  operations. Every operation awaits its collaborators one after the other, so an
  operation is modelled as a function that returns the list of repository calls it issued,
  in order, together with its outcome: \<open>Inl\<close> an error for a rejected promise (a
  \<^verbatim>\<open>throw\<close>), \<open>Inr\<close> the value otherwise. What a collaborator answers is a field
  of the \<open>Queries\<close> record: the repository itself is outside this file.
\<close>

subsection \<open>Errors\<close>

text \<open>
  \<^verbatim>\<open>RequestError\<close> carries a code and an HTTP status. Built from a bare code, as in
  \<^verbatim>\<open>new RequestError('oidc.invalid_redirect_uri')\<close>, the status is 400 (the doc comments of
  the source say so for both uses). \<open>TypeError\<close> is the runtime's error for a property
  read on \<^verbatim>\<open>undefined\<close> and for an unparsable URL; \<open>StorageError\<close> stands for any
  other failure a collaborator reports.
\<close>

datatype error =
    RequestError (code: string) (status: nat)
  | TypeError string
  | StorageError string

definition RequestError_code :: "string \<Rightarrow> error" where
  "RequestError_code c = RequestError c 400"

text \<open>\<^verbatim>\<open>assert(value, error)\<close> and \<^verbatim>\<open>assertThat(value, error)\<close>: throw the error unless the value holds.\<close>

definition assertThat :: "bool \<Rightarrow> error \<Rightarrow> error + unit" where
  "assertThat v e = (if v then Inr () else Inl e)"

text \<open>\<^verbatim>\<open>trySafe(fn)\<close>: run the function, and answer \<^verbatim>\<open>undefined\<close> when it throws.\<close>

definition trySafe :: "error + 'a \<Rightarrow> 'a option" where
  "trySafe r = (case r of Inl e \<Rightarrow> None | Inr v \<Rightarrow> Some v)"

subsection \<open>Data model\<close>

text \<open>Opaque JSON payloads (a connector's provider-specific config, the rest of an assertion).\<close>

datatype json =
    JNull
  | JBool bool
  | JNum int
  | JStr string
  | JArr "json list"
  | JObj "(string \<times> json) list"

record SsoConnector =
  id' :: string
  providerName :: string
  config :: json
  domains :: "string list"

text \<open>
  A factory of \<^verbatim>\<open>ssoConnectorFactories\<close>: of its members the library only uses
  \<^verbatim>\<open>configGuard.safeParse(config).success\<close>, the verdict of the provider's config schema.
  The table itself (\<^verbatim>\<open>#src/sso/index.js\<close>) is a parameter of the model.
\<close>

record SsoConnectorFactory =
  configGuard :: "json \<Rightarrow> bool"

type_synonym SsoConnectorFactories = "string \<rightharpoonup> SsoConnectorFactory"

text \<open>
  Modelled from the spec: the types of \<^verbatim>\<open>@logto/schemas\<close> are not part of the sources.
  An application is \<^verbatim>\<open>{ id, type (enum incl. Traditional), isThirdParty: bool,
  oidcClientMetadata.redirectUris: ordered list<string> }\<close>; the library reads no other
  member of the enum, so the other types are one constructor that carries the name.
\<close>

datatype ApplicationType = Traditional | OtherApplicationType string

record OidcClientMetadata =
  redirectUris :: "string list"

record Application =
  applicationId :: string
  type' :: ApplicationType
  isThirdParty :: bool
  oidcClientMetadata :: OidcClientMetadata

text \<open>
  A JavaScript object with string values, as the list of its properties in creation
  order. \<^verbatim>\<open>authParameters\<close> is one: an optional \<^verbatim>\<open>scope\<close> and any further string
  entries.
\<close>

type_synonym jsobject = "(string \<times> string) list"

record SsoConnectorIdpInitiatedAuthConfig =
  connectorId :: string
  defaultApplicationId :: string
  redirectUri :: "string option"
  authParameters :: jsobject

text \<open>
  The partial update of \<^verbatim>\<open>updateSsoConnectorIdpInitiatedAuthConfig\<close>: each field may be
  missing; \<^verbatim>\<open>redirectUri\<close> may also be given as \<^verbatim>\<open>null\<close>.
\<close>

record IdpInitiatedAuthConfigSet =
  setDefaultApplicationId :: "string option"
  setRedirectUri :: "string option option"
  setAuthParameters :: "jsobject option"

datatype JsonbMode = Replace | Merge

record UpdateIdpInitiatedAuthConfigArgs =
  set' :: IdpInitiatedAuthConfigSet
  whereConnectorId :: string
  jsonbMode :: JsonbMode

text \<open>
  Modelled from the spec: the assertion content is an opaque payload with optional
  \<^verbatim>\<open>conditions.notOnOrAfter\<close>. The library passes the field to \<^verbatim>\<open>new Date\<close>; it is
  the date-time string of the SAML assertion.
\<close>

record Conditions =
  notBefore :: "string option"
  notOnOrAfter :: "string option"

record SsoSamlAssertionContent =
  conditions :: "Conditions option"
  assertionRest :: json

text \<open>The value of a \<^verbatim>\<open>Date\<close>: epoch milliseconds, or \<^verbatim>\<open>NaN\<close> for an invalid date.\<close>

datatype timeValue = TimeValue int | NaN

record IdpInitiatedSamlSsoSession =
  sessionId :: string
  sessionConnectorId :: string
  assertionContent :: SsoSamlAssertionContent
  expiresAt :: timeValue

subsection \<open>The collaborators\<close>

text \<open>
  Modelled from the spec: the repository behind \<^verbatim>\<open>queries.ssoConnectors\<close> and
  \<^verbatim>\<open>queries.applications\<close> is not part of the sources; its contract is
  \<^verbatim>\<open>findAllConnectors(limit?, offset?) -> (count, list)\<close>,
  \<^verbatim>\<open>findConnectorById(id) -> Connector | absent\<close> and
  \<^verbatim>\<open>findApplicationById(id) -> Application (fails not-found if absent)\<close>, with the
  inserts and the update answering the stored row. Each field is what the repository
  answers to a call; \<open>Inl\<close> is a rejected promise, of any cause.
\<close>

record SsoConnectorQueries =
  findAll :: "int option \<Rightarrow> int option \<Rightarrow> error + (nat \<times> SsoConnector list)"
  findById :: "string \<Rightarrow> error + SsoConnector option"
  insertIdpInitiatedAuthConfig ::
    "SsoConnectorIdpInitiatedAuthConfig \<Rightarrow> error + SsoConnectorIdpInitiatedAuthConfig"
  updateIdpInitiatedAuthConfig ::
    "UpdateIdpInitiatedAuthConfigArgs \<Rightarrow> error + SsoConnectorIdpInitiatedAuthConfig"
  insertIdpInitiatedSamlSsoSession ::
    "IdpInitiatedSamlSsoSession \<Rightarrow> error + IdpInitiatedSamlSsoSession"

record ApplicationQueries =
  findApplicationById :: "string \<Rightarrow> error + Application"

record Queries =
  ssoConnectors :: SsoConnectorQueries
  applications :: ApplicationQueries

text \<open>The calls an operation issues to the repository, in the order it awaits them.\<close>

datatype call =
    FindAll "int option" "int option"
  | FindById string
  | FindApplicationById string
  | InsertIdpInitiatedAuthConfig SsoConnectorIdpInitiatedAuthConfig
  | UpdateIdpInitiatedAuthConfig UpdateIdpInitiatedAuthConfigArgs
  | InsertIdpInitiatedSamlSsoSession IdpInitiatedSamlSsoSession

subsection \<open>Connector discovery\<close>

text \<open>
  Modelled from the spec: \<^verbatim>\<open>isSupportedSsoConnector\<close> (\<^verbatim>\<open>#src/sso/utils.js\<close>) is not
  part of the sources. A connector is supported iff its \<^verbatim>\<open>providerName\<close> matches a
  registered provider in the connector registry; where no record exists there is no
  supported connector.
\<close>

definition isSupportedSsoConnector :: "SsoConnectorFactories \<Rightarrow> SsoConnector option \<Rightarrow> bool" where
  "isSupportedSsoConnector factories connector =
     (case connector of
        None \<Rightarrow> False
      | Some c \<Rightarrow> factories (providerName c) \<noteq> None)"

definition getSsoConnectors ::
  "SsoConnectorFactories \<Rightarrow> Queries \<Rightarrow> int option \<Rightarrow> int option \<Rightarrow>
     call list \<times> (error + (nat \<times> SsoConnector list))" where
  "getSsoConnectors factories queries limit offset =
     (case findAll (ssoConnectors queries) limit offset of
        Inl e \<Rightarrow> ([FindAll limit offset], Inl e)
      | Inr (count, entities) \<Rightarrow>
          ([FindAll limit offset],
           Inr (count,
                filter (\<lambda>connector. isSupportedSsoConnector factories (Some connector)) entities)))"

text \<open>
  \<^verbatim>\<open>Array.prototype.filter\<close> with a callback that may throw: the elements are visited
  from left to right and the first exception ends the call.
\<close>

fun filterE :: "('a \<Rightarrow> error + bool) \<Rightarrow> 'a list \<Rightarrow> error + 'a list" where
  "filterE p [] = Inr []"
| "filterE p (x # xs) =
     (case p x of
        Inl e \<Rightarrow> Inl e
      | Inr keep \<Rightarrow>
          (case filterE p xs of
             Inl e \<Rightarrow> Inl e
           | Inr ys \<Rightarrow> Inr (if keep then x # ys else ys)))"

text \<open>
  The callback of \<^verbatim>\<open>getAvailableSsoConnectors\<close>. \<^verbatim>\<open>ssoConnectorFactories[providerName]\<close>
  is \<^verbatim>\<open>undefined\<close> for an unregistered name, and reading \<^verbatim>\<open>configGuard\<close> of it throws.
\<close>

definition isAvailable :: "SsoConnectorFactories \<Rightarrow> SsoConnector \<Rightarrow> error + bool" where
  "isAvailable factories connector =
     (case factories (providerName connector) of
        None \<Rightarrow> Inl (TypeError ''Cannot read properties of undefined (reading 'configGuard')'')
      | Some factory \<Rightarrow>
          (let hasValidConfig = configGuard factory (config connector);
               hasValidDomains = length (domains connector) > 0
           in Inr (hasValidConfig \<and> hasValidDomains)))"

definition getAvailableSsoConnectors ::
  "SsoConnectorFactories \<Rightarrow> Queries \<Rightarrow> call list \<times> (error + SsoConnector list)" where
  "getAvailableSsoConnectors factories queries =
     (case getSsoConnectors factories queries None None of
        (calls, Inl e) \<Rightarrow> (calls, Inl e)
      | (calls, Inr (_, connectors)) \<Rightarrow> (calls, filterE (isAvailable factories) connectors))"

definition getSsoConnectorById ::
  "SsoConnectorFactories \<Rightarrow> Queries \<Rightarrow> string \<Rightarrow> call list \<times> (error + SsoConnector option)" where
  "getSsoConnectorById factories queries i =
     (case findById (ssoConnectors queries) i of
        Inl e \<Rightarrow> ([FindById i], Inl e)
      | Inr connector \<Rightarrow>
          (case assertThat (isSupportedSsoConnector factories connector)
                  (RequestError ''connector.not_found'' 404) of
             Inl e \<Rightarrow> ([FindById i], Inl e)
           | Inr _ \<Rightarrow> ([FindById i], Inr connector)))"

subsection \<open>IdP-initiated auth config lifecycle\<close>

text \<open>JavaScript truthiness of a string that may be missing: missing and empty are falsy.\<close>

definition truthy :: "string option \<Rightarrow> bool" where
  "truthy s = (case s of None \<Rightarrow> False | Some v \<Rightarrow> v \<noteq> [])"

definition isFirstPartyTraditional :: "Application \<Rightarrow> bool" where
  "isFirstPartyTraditional application =
     (type' application = Traditional \<and> \<not> isThirdParty application)"

definition createSsoConnectorIdpInitiatedAuthConfig ::
  "Queries \<Rightarrow> SsoConnectorIdpInitiatedAuthConfig \<Rightarrow>
     call list \<times> (error + SsoConnectorIdpInitiatedAuthConfig)" where
  "createSsoConnectorIdpInitiatedAuthConfig queries data =
     (case findApplicationById (applications queries) (defaultApplicationId data) of
        Inl e \<Rightarrow> ([FindApplicationById (defaultApplicationId data)], Inl e)
      | Inr application \<Rightarrow>
          (case assertThat (isFirstPartyTraditional application)
                  (RequestError_code ''connector.saml_idp_initiated_auth_invalid_application_type'') of
             Inl e \<Rightarrow> ([FindApplicationById (defaultApplicationId data)], Inl e)
           | Inr _ \<Rightarrow>
               ([FindApplicationById (defaultApplicationId data), InsertIdpInitiatedAuthConfig data],
                insertIdpInitiatedAuthConfig (ssoConnectors queries) data)))"

definition updateSsoConnectorIdpInitiatedAuthConfig ::
  "Queries \<Rightarrow> string \<Rightarrow> IdpInitiatedAuthConfigSet \<Rightarrow>
     call list \<times> (error + SsoConnectorIdpInitiatedAuthConfig)" where
  "updateSsoConnectorIdpInitiatedAuthConfig queries cid st =
     (let validation =
            (case setDefaultApplicationId st of
               None \<Rightarrow> ([], Inr ())
             | Some appId \<Rightarrow>
                 if truthy (Some appId) then
                   (case findApplicationById (applications queries) appId of
                      Inl e \<Rightarrow> ([FindApplicationById appId], Inl e)
                    | Inr application \<Rightarrow>
                        ([FindApplicationById appId],
                         assertThat (isFirstPartyTraditional application)
                           (RequestError_code
                              ''connector.saml_idp_initiated_auth_invalid_application_type'')))
                 else ([], Inr ()));
          args = \<lparr> set' = st, whereConnectorId = cid, jsonbMode = Replace \<rparr>
      in case validation of
           (calls, Inl e) \<Rightarrow> (calls, Inl e)
         | (calls, Inr _) \<Rightarrow>
             (calls @ [UpdateIdpInitiatedAuthConfig args],
              updateIdpInitiatedAuthConfig (ssoConnectors queries) args))"

subsection \<open>SAML session creation\<close>

text \<open>
  What the runtime supplies to one call: the id \<^verbatim>\<open>generateStandardId()\<close> returns, the
  clock \<^verbatim>\<open>Date.now()\<close>, the date parser behind \<^verbatim>\<open>new Date(string)\<close> and the URL parser
  behind \<^verbatim>\<open>new URL(string)\<close> (whether it accepts the string).
\<close>

record Runtime =
  generateStandardId :: string
  dateNow :: int
  dateParse :: "string \<Rightarrow> timeValue"
  urlCanParse :: "string \<Rightarrow> bool"

text \<open>
  \<^verbatim>\<open>new Date(number).valueOf()\<close>: a time value beyond 8.64e15 milliseconds from the
  epoch is not a date (TimeClip).
\<close>

definition newDate :: "int \<Rightarrow> timeValue" where
  "newDate t = (if \<bar>t\<bar> \<le> 8640000000000000 then TimeValue t else NaN)"

text \<open>\<^verbatim>\<open>assertionContent.conditions?.notOnOrAfter\<close>\<close>

definition conditionsNotOnOrAfter :: "SsoSamlAssertionContent \<Rightarrow> string option" where
  "conditionsNotOnOrAfter content =
     (case conditions content of None \<Rightarrow> None | Some c \<Rightarrow> notOnOrAfter c)"

text \<open>
  The constant \<^verbatim>\<open>defaultIdPInitiatedSamlSsoSessionTtl\<close> (\<^verbatim>\<open>#src/constants/index.js\<close>) is
  a parameter, \<open>ttl\<close>.
\<close>

definition sessionExpiresAt :: "Runtime \<Rightarrow> int \<Rightarrow> SsoSamlAssertionContent \<Rightarrow> timeValue" where
  "sessionExpiresAt rt ttl content =
     (case conditionsNotOnOrAfter content of
        None \<Rightarrow> newDate (dateNow rt + ttl)
      | Some t \<Rightarrow>
          if truthy (Some t) then dateParse rt t
          else newDate (dateNow rt + ttl))"

definition createIdpInitiatedSamlSsoSession ::
  "Runtime \<Rightarrow> int \<Rightarrow> Queries \<Rightarrow> string \<Rightarrow> SsoSamlAssertionContent \<Rightarrow>
     call list \<times> (error + IdpInitiatedSamlSsoSession)" where
  "createIdpInitiatedSamlSsoSession rt ttl queries cid content =
     (let session = \<lparr> sessionId = generateStandardId rt,
                       sessionConnectorId = cid,
                       assertionContent = content,
                       expiresAt = sessionExpiresAt rt ttl content \<rparr>
      in ([InsertIdpInitiatedSamlSsoSession session],
          insertIdpInitiatedSamlSsoSession (ssoConnectors queries) session))"

subsection \<open>JavaScript objects, \<^verbatim>\<open>URLSearchParams\<close> and the query string\<close>

text \<open>
  The own property keys of an object are enumerated array indices first, in ascending
  numeric order, then the other string keys in creation order. An array index is the
  canonical decimal form of an integer below \<open>2^32 - 1\<close>.
\<close>

definition isDigit :: "char \<Rightarrow> bool" where
  "isDigit c = (c \<in> set ''0123456789'')"

definition decimalValue :: "string \<Rightarrow> int" where
  "decimalValue s = foldl (\<lambda>n c. 10 * n + (of_char c - 48)) 0 s"

definition isArrayIndex :: "string \<Rightarrow> bool" where
  "isArrayIndex k =
     (case k of
        [] \<Rightarrow> False
      | c # cs \<Rightarrow>
          list_all isDigit k \<and> (if c = CHR ''0'' then cs = [] else True) \<and>
          length k \<le> 10 \<and> decimalValue k < 4294967295)"

definition ownEntries :: "jsobject \<Rightarrow> jsobject" where
  "ownEntries obj =
     sort_key (\<lambda>p. decimalValue (fst p)) (filter (\<lambda>p. isArrayIndex (fst p)) obj) @
     filter (\<lambda>p. \<not> isArrayIndex (fst p)) obj"

text \<open>Defining a property: an existing key keeps its place and takes the new value; a new key is created last.\<close>

fun putProp :: "string \<Rightarrow> string \<Rightarrow> jsobject \<Rightarrow> jsobject" where
  "putProp k v [] = [(k, v)]"
| "putProp k v (p # ps) = (if fst p = k then (k, v) # ps else p # putProp k v ps)"

text \<open>Reading a property: \<^verbatim>\<open>undefined\<close> when the object has no such key.\<close>

definition getProp :: "jsobject \<Rightarrow> string \<Rightarrow> string option" where
  "getProp obj k = map_of obj k"

text \<open>
  An object literal \<^verbatim>\<open>{ k1: v1, ..., ...spread }\<close>: the listed properties are defined in
  order, then the own properties of the spread object in their enumeration order.
\<close>

definition objectLiteral :: "(string \<times> string) list \<Rightarrow> jsobject \<Rightarrow> jsobject" where
  "objectLiteral props spread =
     foldl (\<lambda>obj p. putProp (fst p) (snd p) obj) [] (props @ ownEntries spread)"

text \<open>
  The rest of a destructuring pattern \<^verbatim>\<open>{ scope, ...extraParams }\<close>: a new object with
  the own properties of the source, in enumeration order, but the named key.
\<close>

definition restWithout :: "string \<Rightarrow> jsobject \<Rightarrow> jsobject" where
  "restWithout k obj = filter (\<lambda>p. fst p \<noteq> k) (ownEntries obj)"

text \<open>
  \<^verbatim>\<open>URLSearchParams\<close> is a list of name-value pairs: built from an object it holds the
  object's own entries, \<^verbatim>\<open>append\<close> adds a pair at the end, and \<^verbatim>\<open>toString\<close> is the
  \<^verbatim>\<open>application/x-www-form-urlencoded\<close> serialisation of the pairs. A string is the list
  of the bytes of its UTF-8 encoding.
\<close>

type_synonym URLSearchParams = "(string \<times> string) list"

definition newURLSearchParams :: "jsobject \<Rightarrow> URLSearchParams" where
  "newURLSearchParams obj = ownEntries obj"

definition append' :: "URLSearchParams \<Rightarrow> string \<Rightarrow> string \<Rightarrow> URLSearchParams" where
  "append' params k v = params @ [(k, v)]"

definition isUrlencodedSafe :: "char \<Rightarrow> bool" where
  "isUrlencodedSafe c =
     (c \<in> set (''abcdefghijklmnopqrstuvwxyz'' @ ''ABCDEFGHIJKLMNOPQRSTUVWXYZ'' @
               ''0123456789'' @ ''*-._''))"

definition hexDigit :: "nat \<Rightarrow> char" where
  "hexDigit n = ''0123456789ABCDEF'' ! (n mod 16)"

definition urlencodeByte :: "char \<Rightarrow> string" where
  "urlencodeByte c =
     (if c = CHR '' '' then ''+''
      else if isUrlencodedSafe c then [c]
      else [CHR ''%'', hexDigit (of_char c div 16), hexDigit (of_char c mod 16)])"

definition urlencode :: "string \<Rightarrow> string" where
  "urlencode s = concat (map urlencodeByte s)"

text \<open>\<^verbatim>\<open>Array.prototype.join\<close>\<close>

fun join :: "string \<Rightarrow> string list \<Rightarrow> string" where
  "join sep [] = []"
| "join sep [x] = x"
| "join sep (x # y # ys) = x @ sep @ join sep (y # ys)"

definition toString :: "URLSearchParams \<Rightarrow> string" where
  "toString params = join ''&'' (map (\<lambda>p. urlencode (fst p) @ ''='' @ urlencode (snd p)) params)"

text \<open>\<^verbatim>\<open>String.prototype.split\<close> with a one-character separator: always at least one token.\<close>

fun split :: "char \<Rightarrow> string \<Rightarrow> string list" where
  "split sep [] = [[]]"
| "split sep (c # cs) =
     (if c = sep then [] # split sep cs
      else (case split sep cs of
              [] \<Rightarrow> [[c]]
            | t # ts \<Rightarrow> (c # t) # ts))"

text \<open>
  Modelled from the spec: \<^verbatim>\<open>withReservedScopes\<close> (\<^verbatim>\<open>@logto/js\<close>) is not part of the
  sources. The normaliser ensures that the baseline required scopes are always present
  even if the caller omitted them, with no duplicates, and joins the tokens with a space.
  The reserved scopes themselves are a parameter. \<open>uniq\<close> keeps the first occurrence of
  each token.
\<close>

fun uniq :: "'a list \<Rightarrow> 'a list" where
  "uniq [] = []"
| "uniq (x # xs) = x # filter (\<lambda>y. y \<noteq> x) (uniq xs)"

definition withReservedScopes :: "string list \<Rightarrow> string list \<Rightarrow> string" where
  "withReservedScopes reservedScopes originalScopes =
     join '' '' (uniq (reservedScopes @ originalScopes))"

subsection \<open>Sign-in URL synthesis\<close>

text \<open>
  The URL object \<^verbatim>\<open>new URL(s)\<close> builds from a string the parser accepts; for another
  string the constructor throws a \<^verbatim>\<open>TypeError\<close>.
\<close>

datatype URL = URL string

definition newURL :: "Runtime \<Rightarrow> string \<Rightarrow> error + URL" where
  "newURL rt s = (if urlCanParse rt s then Inr (URL s) else Inl (TypeError ''Invalid URL''))"

text \<open>
  The redirect URI: \<^verbatim>\<open>authConfig.redirectUri\<close> unless it is \<^verbatim>\<open>null\<close>; else the first
  registered redirect URI of the default application, \<^verbatim>\<open>undefined\<close> when the list is
  empty or the lookup throws.
\<close>

definition resolveRedirectUri ::
  "Queries \<Rightarrow> SsoConnectorIdpInitiatedAuthConfig \<Rightarrow> call list \<times> string option" where
  "resolveRedirectUri queries authConfig =
     (case redirectUri authConfig of
        Some r \<Rightarrow> ([], Some r)
      | None \<Rightarrow>
          ([FindApplicationById (defaultApplicationId authConfig)],
           (case trySafe
                   (case findApplicationById (applications queries)
                           (defaultApplicationId authConfig) of
                      Inl e \<Rightarrow> Inl e
                    | Inr application \<Rightarrow>
                        Inr (case redirectUris (oidcClientMetadata application) of
                               [] \<Rightarrow> None
                             | u # _ \<Rightarrow> Some u)) of
              None \<Rightarrow> None
            | Some u \<Rightarrow> u)))"

text \<open>
  Modelled from the spec: the constants \<^verbatim>\<open>QueryKey\<close> and \<^verbatim>\<open>Prompt\<close> (\<^verbatim>\<open>@logto/js\<close>)
  are not part of the sources. The wire contract gives the exact keys \<^verbatim>\<open>client_id\<close>,
  \<^verbatim>\<open>redirect_uri\<close>, \<^verbatim>\<open>response_type\<close>, \<^verbatim>\<open>prompt=login\<close>, \<^verbatim>\<open>direct_sign_in\<close> and
  \<^verbatim>\<open>scope\<close>.
\<close>

definition QueryKey_ClientId :: string where "QueryKey_ClientId = ''client_id''"
definition QueryKey_RedirectUri :: string where "QueryKey_RedirectUri = ''redirect_uri''"
definition QueryKey_ResponseType :: string where "QueryKey_ResponseType = ''response_type''"
definition QueryKey_Prompt :: string where "QueryKey_Prompt = ''prompt''"
definition QueryKey_DirectSignIn :: string where "QueryKey_DirectSignIn = ''direct_sign_in''"
definition QueryKey_Scope :: string where "QueryKey_Scope = ''scope''"
definition Prompt_Login :: string where "Prompt_Login = ''login''"

text \<open>\<^verbatim>\<open>DirectSignInOptions\<close>, written into the query as \<^verbatim>\<open>method:target\<close>.\<close>

record DirectSignInOptions =
  method' :: string
  target :: string

text \<open>The entries of \<^verbatim>\<open>queryParameters\<close> once the scope is appended.\<close>

definition queryParameters ::
  "string list \<Rightarrow> SsoConnectorIdpInitiatedAuthConfig \<Rightarrow> string \<Rightarrow> URLSearchParams" where
  "queryParameters reservedScopes authConfig uri =
     (let scope = getProp (authParameters authConfig) ''scope'';
          extraParams = restWithout ''scope'' (authParameters authConfig);
          directSignInOptions = \<lparr> method' = ''sso'', target = connectorId authConfig \<rparr>;
          params = newURLSearchParams
            (objectLiteral
               [(QueryKey_ClientId, defaultApplicationId authConfig),
                (QueryKey_RedirectUri, uri),
                (QueryKey_ResponseType, ''code''),
                (QueryKey_Prompt, Prompt_Login),
                (QueryKey_DirectSignIn,
                 method' directSignInOptions @ '':'' @ target directSignInOptions)]
               extraParams)
      in append' params QueryKey_Scope
           (withReservedScopes reservedScopes
              (case scope of None \<Rightarrow> [] | Some s \<Rightarrow> split CHR '' '' s)))"

definition getIdpInitiatedSamlSsoSignInUrl ::
  "Runtime \<Rightarrow> string list \<Rightarrow> Queries \<Rightarrow> string \<Rightarrow> SsoConnectorIdpInitiatedAuthConfig \<Rightarrow>
     call list \<times> (error + URL)" where
  "getIdpInitiatedSamlSsoSignInUrl rt reservedScopes queries issuer authConfig =
     (case resolveRedirectUri queries authConfig of
        (calls, None) \<Rightarrow> (calls, Inl (RequestError_code ''oidc.invalid_redirect_uri''))
      | (calls, Some uri) \<Rightarrow>
          if \<not> truthy (Some uri)
          then (calls, Inl (RequestError_code ''oidc.invalid_redirect_uri''))
          else
            (calls,
             newURL rt
               (issuer @ ''/auth?'' @ toString (queryParameters reservedScopes authConfig uri))))"

subsection \<open>Reading a query string\<close>

text \<open>
  The reader's side of \<^verbatim>\<open>application/x-www-form-urlencoded\<close>, as \<^verbatim>\<open>URLSearchParams\<close>
  parses a query string: the string is cut at each \<^verbatim>\<open>&\<close>, empty pieces are skipped,
  a piece is cut at its first \<^verbatim>\<open>=\<close> into name and value, and in both \<^verbatim>\<open>+\<close> stands
  for a space and \<^verbatim>\<open>%XX\<close> for the byte with that hexadecimal code. It is not code of the
  library: it says what the query of an issued URL carries.
\<close>

definition isHexDigit :: "char \<Rightarrow> bool" where
  "isHexDigit c = (c \<in> set (''0123456789'' @ ''ABCDEF'' @ ''abcdef''))"

definition hexValue :: "char \<Rightarrow> nat" where
  "hexValue c =
     (if c \<in> set ''0123456789'' then of_char c - 48
      else if c \<in> set ''ABCDEF'' then of_char c - 55
      else of_char c - 87)"

fun urldecode :: "string \<Rightarrow> string" where
  "urldecode [] = []"
| "urldecode (c # cs) =
     (if c = CHR ''+'' then CHR '' '' # urldecode cs
      else if c = CHR ''%'' then
        (case cs of
           h # l # rest \<Rightarrow>
             if isHexDigit h \<and> isHexDigit l
             then char_of (hexValue h * 16 + hexValue l) # urldecode rest
             else c # urldecode cs
         | _ \<Rightarrow> c # urldecode cs)
      else c # urldecode cs)"

text \<open>Cutting a piece at its first \<^verbatim>\<open>=\<close>; a piece without one is a name with an empty value.\<close>

definition nameValue :: "string \<Rightarrow> string \<times> string" where
  "nameValue piece =
     (takeWhile (\<lambda>c. c \<noteq> CHR ''='') piece,
      drop 1 (dropWhile (\<lambda>c. c \<noteq> CHR ''='') piece))"

definition parseQuery :: "string \<Rightarrow> URLSearchParams" where
  "parseQuery s =
     map (\<lambda>piece. (urldecode (fst (nameValue piece)), urldecode (snd (nameValue piece))))
       (filter (\<lambda>piece. piece \<noteq> []) (split CHR ''&'' s))"

subsection \<open>Example data\<close>

text \<open>
  A registry with two providers, four persisted connectors (one of an unregistered
  provider, one with an empty domain list, one with a config its schema refuses), four
  applications and a repository that answers from them.
\<close>

definition exampleFactories :: SsoConnectorFactories where
  "exampleFactories =
     [''okta'' \<mapsto> \<lparr> configGuard = (\<lambda>c. c \<noteq> JNull) \<rparr>,
      ''OIDC'' \<mapsto> \<lparr> configGuard = (\<lambda>c. c \<noteq> JNull) \<rparr>]"

definition connectorOkta :: SsoConnector where
  "connectorOkta =
     \<lparr> id' = ''c1'', providerName = ''okta'',
       config = JObj [(''issuer'', JStr ''https://okta.example'')], domains = [] \<rparr>"

definition connectorOidc :: SsoConnector where
  "connectorOidc =
     \<lparr> id' = ''c2'', providerName = ''OIDC'', config = JObj [], domains = [''example.com''] \<rparr>"

definition connectorLegacy :: SsoConnector where
  "connectorLegacy =
     \<lparr> id' = ''c3'', providerName = ''legacy'', config = JObj [], domains = [''old.example''] \<rparr>"

definition connectorBroken :: SsoConnector where
  "connectorBroken =
     \<lparr> id' = ''c4'', providerName = ''OIDC'', config = JNull, domains = [''example.org''] \<rparr>"

definition appTraditional :: Application where
  "appTraditional =
     \<lparr> applicationId = ''a1'', type' = Traditional, isThirdParty = False,
       oidcClientMetadata =
         \<lparr> redirectUris = [''https://app.example/cb'', ''https://app.example/other''] \<rparr> \<rparr>"

definition appSpa :: Application where
  "appSpa =
     \<lparr> applicationId = ''a2'', type' = OtherApplicationType ''SPA'', isThirdParty = False,
       oidcClientMetadata = \<lparr> redirectUris = [''https://spa.example/cb''] \<rparr> \<rparr>"

definition appThirdParty :: Application where
  "appThirdParty =
     \<lparr> applicationId = ''a3'', type' = Traditional, isThirdParty = True,
       oidcClientMetadata = \<lparr> redirectUris = [''https://partner.example/cb''] \<rparr> \<rparr>"

definition appNoUris :: Application where
  "appNoUris =
     \<lparr> applicationId = ''a4'', type' = Traditional, isThirdParty = False,
       oidcClientMetadata = \<lparr> redirectUris = [] \<rparr> \<rparr>"

definition exampleQueries :: Queries where
  "exampleQueries =
     \<lparr> ssoConnectors =
         \<lparr> findAll = (\<lambda>limit offset.
             Inr (7, [connectorOkta, connectorOidc, connectorLegacy, connectorBroken])),
           findById = (\<lambda>i.
             if i = ''c1'' then Inr (Some connectorOkta)
             else if i = ''c3'' then Inr (Some connectorLegacy)
             else Inr None),
           insertIdpInitiatedAuthConfig = Inr,
           updateIdpInitiatedAuthConfig = (\<lambda>args.
             Inr \<lparr> connectorId = whereConnectorId args, defaultApplicationId = ''a1'',
                   redirectUri = None, authParameters = [] \<rparr>),
           insertIdpInitiatedSamlSsoSession = Inr \<rparr>,
       applications =
         \<lparr> findApplicationById = (\<lambda>i.
             if i = ''a1'' then Inr appTraditional
             else if i = ''a2'' then Inr appSpa
             else if i = ''a3'' then Inr appThirdParty
             else if i = ''a4'' then Inr appNoUris
             else Inl (RequestError ''entity.not_exists_with_id'' 404)) \<rparr> \<rparr>"

definition authConfigFor :: "string \<Rightarrow> SsoConnectorIdpInitiatedAuthConfig" where
  "authConfigFor appId =
     \<lparr> connectorId = ''c1'', defaultApplicationId = appId, redirectUri = None,
       authParameters = [(''scope'', ''a b'')] \<rparr>"

definition setApplication :: "string \<Rightarrow> IdpInitiatedAuthConfigSet" where
  "setApplication appId =
     \<lparr> setDefaultApplicationId = Some appId, setRedirectUri = None, setAuthParameters = None \<rparr>"

definition setRedirectOnly :: IdpInitiatedAuthConfigSet where
  "setRedirectOnly =
     \<lparr> setDefaultApplicationId = None, setRedirectUri = Some (Some ''https://app.example/cb''),
       setAuthParameters = None \<rparr>"

definition exampleRuntime :: Runtime where
  "exampleRuntime =
     \<lparr> generateStandardId = ''nzfpcmb3ry5x0q9dtw7ks'',
       dateNow = 1700000000000,
       dateParse = (\<lambda>s. if s = ''2023-11-14T22:18:20.000Z'' then TimeValue 1700000300000 else NaN),
       urlCanParse = (\<lambda>s. take 8 s = ''https://'') \<rparr>"

definition assertionWith :: "string option \<Rightarrow> SsoSamlAssertionContent" where
  "assertionWith t =
     \<lparr> conditions = Some \<lparr> notBefore = None, notOnOrAfter = t \<rparr>,
       assertionRest = JObj [(''nameID'', JStr ''alice@example.com'')] \<rparr>"

definition assertionBare :: SsoSamlAssertionContent where
  "assertionBare =
     \<lparr> conditions = None, assertionRest = JObj [(''nameID'', JStr ''alice@example.com'')] \<rparr>"

definition exampleReservedScopes :: "string list" where
  "exampleReservedScopes = [''openid'', ''offline_access'', ''profile'']"

definition acPlain :: SsoConnectorIdpInitiatedAuthConfig where
  "acPlain =
     \<lparr> connectorId = ''c1'', defaultApplicationId = ''a1'', redirectUri = Some ''https://cb'',
       authParameters = [(''scope'', ''a b''), (''resource'', ''https://api.example/v1'')] \<rparr>"

definition acOverride :: SsoConnectorIdpInitiatedAuthConfig where
  "acOverride =
     \<lparr> connectorId = ''c1'', defaultApplicationId = ''a1'', redirectUri = Some ''https://cb'',
       authParameters = [(''scope'', ''custom''), (''client_id'', ''x'')] \<rparr>"

definition acEmptyRedirect :: SsoConnectorIdpInitiatedAuthConfig where
  "acEmptyRedirect =
     \<lparr> connectorId = ''c1'', defaultApplicationId = ''a1'', redirectUri = Some [],
       authParameters = [] \<rparr>"

definition acScoped :: SsoConnectorIdpInitiatedAuthConfig where
  "acScoped =
     \<lparr> connectorId = ''c1'', defaultApplicationId = ''a1'', redirectUri = Some ''https://cb'',
       authParameters = [(''scope'', ''profile custom custom'')] \<rparr>"

section \<open>Properties\<close>

subsection \<open>Connector discovery\<close>

lemma filterE_isAvailable:
  "filterE (isAvailable factories)
     (filter (\<lambda>c. isSupportedSsoConnector factories (Some c)) entities) =
   Inr (filter (\<lambda>c. case factories (providerName c) of
                        None \<Rightarrow> False
                      | Some f \<Rightarrow> configGuard f (config c) \<and> domains c \<noteq> []) entities)"
  by (induction entities) (auto simp: isAvailable_def isSupportedSsoConnector_def)

text \<open>
  C9. For every limit and offset, when the repository answers \<open>(count, entities)\<close>,
  \<open>getSsoConnectors\<close> issues that one call and returns the repository's count unchanged
  together with exactly the connectors of the page whose provider name has a registered
  factory, in the page's order: a sublist of the page, possibly shorter.
\<close>

theorem getSsoConnectors_count_and_supported:
  assumes "findAll (ssoConnectors queries) limit offset = Inr (count, entities)"
  shows "getSsoConnectors factories queries limit offset =
           ([FindAll limit offset],
            Inr (count, filter (\<lambda>c. providerName c \<in> dom factories) entities)) \<and>
         set (filter (\<lambda>c. providerName c \<in> dom factories) entities) \<subseteq> set entities \<and>
         length (filter (\<lambda>c. providerName c \<in> dom factories) entities) \<le> length entities"
  using assms by (simp add: getSsoConnectors_def isSupportedSsoConnector_def dom_def)

lemma example_findAll:
  "findAll (ssoConnectors exampleQueries) limit offset =
     Inr (7, [connectorOkta, connectorOidc, connectorLegacy, connectorBroken])"
  by (simp add: exampleQueries_def)

lemma example_providers:
  "exampleFactories (providerName connectorOkta) = Some \<lparr> configGuard = (\<lambda>c. c \<noteq> JNull) \<rparr>"
  "exampleFactories (providerName connectorOidc) = Some \<lparr> configGuard = (\<lambda>c. c \<noteq> JNull) \<rparr>"
  "exampleFactories (providerName connectorLegacy) = None"
  "exampleFactories (providerName connectorBroken) = Some \<lparr> configGuard = (\<lambda>c. c \<noteq> JNull) \<rparr>"
  by (simp_all add: exampleFactories_def connectorOkta_def connectorOidc_def
        connectorLegacy_def connectorBroken_def)

lemma example_supported:
  "filter (\<lambda>c. providerName c \<in> dom exampleFactories)
     [connectorOkta, connectorOidc, connectorLegacy, connectorBroken] =
   [connectorOkta, connectorOidc, connectorBroken]"
  by (simp add: domIff example_providers)

theorem getSsoConnectors_count_and_supported_witness:
  "findAll (ssoConnectors exampleQueries) (Some 20) (Some 0) =
     Inr (7, [connectorOkta, connectorOidc, connectorLegacy, connectorBroken]) \<and>
   getSsoConnectors exampleFactories exampleQueries (Some 20) (Some 0) =
     ([FindAll (Some 20) (Some 0)], Inr (7, [connectorOkta, connectorOidc, connectorBroken]))"
proof -
  have page: "findAll (ssoConnectors exampleQueries) (Some 20) (Some 0) =
     Inr (7, [connectorOkta, connectorOidc, connectorLegacy, connectorBroken])"
    by (rule example_findAll)
  from getSsoConnectors_count_and_supported [OF page, of exampleFactories]
  have "getSsoConnectors exampleFactories exampleQueries (Some 20) (Some 0) =
     ([FindAll (Some 20) (Some 0)], Inr (7, [connectorOkta, connectorOidc, connectorBroken]))"
    by (simp only: example_supported)
  with page show ?thesis by (rule conjI)
qed

text \<open>
  C4. When the repository answers the unpaged \<open>findAll\<close> with \<open>entities\<close>,
  \<open>getAvailableSsoConnectors\<close> succeeds, and a connector is in its result if and only if
  it is one of \<open>entities\<close>, a factory is registered for its provider name, that factory's
  config guard accepts its config, and its domain list is not empty. A connector with an
  empty domain list is never in the result.
\<close>

theorem getAvailableSsoConnectors_iff:
  assumes "findAll (ssoConnectors queries) None None = Inr (count, entities)"
  shows "\<exists>available.
           getAvailableSsoConnectors factories queries = ([FindAll None None], Inr available) \<and>
           (\<forall>c. c \<in> set available \<longleftrightarrow>
                  c \<in> set entities \<and>
                  (\<exists>f. factories (providerName c) = Some f \<and> configGuard f (config c)) \<and>
                  domains c \<noteq> []) \<and>
           (\<forall>c. domains c = [] \<longrightarrow> c \<notin> set available)"
proof -
  let ?ok = "\<lambda>c. case factories (providerName c) of
                    None \<Rightarrow> False
                  | Some f \<Rightarrow> configGuard f (config c) \<and> domains c \<noteq> []"
  have "getAvailableSsoConnectors factories queries =
          ([FindAll None None], Inr (filter ?ok entities))"
    using assms
    by (simp add: getAvailableSsoConnectors_def getSsoConnectors_def filterE_isAvailable)
  moreover have "\<forall>c. c \<in> set (filter ?ok entities) \<longleftrightarrow>
                  c \<in> set entities \<and>
                  (\<exists>f. factories (providerName c) = Some f \<and> configGuard f (config c)) \<and>
                  domains c \<noteq> []"
    by (auto split: option.splits)
  moreover have "\<forall>c. domains c = [] \<longrightarrow> c \<notin> set (filter ?ok entities)"
    by (auto split: option.splits)
  ultimately show ?thesis by blast
qed

lemma example_connectors_distinct:
  "connectorOidc \<noteq> connectorOkta" "connectorOidc \<noteq> connectorLegacy"
  "connectorOidc \<noteq> connectorBroken"
  by (simp_all add: connectorOkta_def connectorOidc_def connectorLegacy_def connectorBroken_def)

lemma example_valid:
  "domains connectorOkta = []" "domains connectorOidc \<noteq> []" 
  "config connectorOidc \<noteq> JNull" "config connectorBroken = JNull"
  by (simp_all add: connectorOkta_def connectorOidc_def connectorLegacy_def connectorBroken_def)

theorem getAvailableSsoConnectors_iff_witness:
  "findAll (ssoConnectors exampleQueries) None None =
     Inr (7, [connectorOkta, connectorOidc, connectorLegacy, connectorBroken]) \<and>
   (\<exists>available.
      getAvailableSsoConnectors exampleFactories exampleQueries =
        ([FindAll None None], Inr available) \<and>
      connectorOidc \<in> set available \<and> connectorOkta \<notin> set available \<and>
      connectorLegacy \<notin> set available \<and> connectorBroken \<notin> set available)"
proof -
  have page: "findAll (ssoConnectors exampleQueries) None None =
     Inr (7, [connectorOkta, connectorOidc, connectorLegacy, connectorBroken])"
    by (rule example_findAll)
  from getAvailableSsoConnectors_iff [OF page, of exampleFactories]
  obtain available where
    run: "getAvailableSsoConnectors exampleFactories exampleQueries =
            ([FindAll None None], Inr available)" and
    iff: "\<And>c. c \<in> set available \<longleftrightarrow>
            c \<in> set [connectorOkta, connectorOidc, connectorLegacy, connectorBroken] \<and>
            (\<exists>f. exampleFactories (providerName c) = Some f \<and> configGuard f (config c)) \<and>
            domains c \<noteq> []"
    by blast
  have "connectorOidc \<in> set available"
    by (simp add: iff example_providers example_valid)
  moreover have "connectorOkta \<notin> set available"
    by (simp add: iff example_valid)
  moreover have "connectorLegacy \<notin> set available"
    by (simp add: iff example_providers)
  moreover have "connectorBroken \<notin> set available"
    by (simp add: iff example_providers example_valid)
  ultimately show ?thesis using page run by blast
qed


text \<open>
  C5. \<open>getSsoConnectorById\<close> fails with the 404 error \<^verbatim>\<open>connector.not_found\<close> both
  when the repository has no record for the id and when it has one whose provider name
  has no registered factory: the two outcomes are the same value. For a record of a
  registered provider it returns the record. An error of the repository itself is passed
  on as it is.
\<close>

theorem getSsoConnectorById_not_found:
  "(findById (ssoConnectors queries) i = Inr None \<longrightarrow>
      getSsoConnectorById factories queries i =
        ([FindById i], Inl (RequestError ''connector.not_found'' 404))) \<and>
   (\<forall>c. findById (ssoConnectors queries) i = Inr (Some c) \<and> providerName c \<notin> dom factories \<longrightarrow>
      getSsoConnectorById factories queries i =
        ([FindById i], Inl (RequestError ''connector.not_found'' 404))) \<and>
   (\<forall>c. findById (ssoConnectors queries) i = Inr (Some c) \<and> providerName c \<in> dom factories \<longrightarrow>
      getSsoConnectorById factories queries i = ([FindById i], Inr (Some c))) \<and>
   (\<forall>e. findById (ssoConnectors queries) i = Inl e \<longrightarrow>
      getSsoConnectorById factories queries i = ([FindById i], Inl e))"
  by (auto simp: getSsoConnectorById_def isSupportedSsoConnector_def assertThat_def)

lemma example_findById:
  "findById (ssoConnectors exampleQueries) ''c9'' = Inr None"
  "findById (ssoConnectors exampleQueries) ''c3'' = Inr (Some connectorLegacy)"
  "findById (ssoConnectors exampleQueries) ''c1'' = Inr (Some connectorOkta)"
  by (simp_all add: exampleQueries_def)

theorem getSsoConnectorById_not_found_witness:
  "findById (ssoConnectors exampleQueries) ''c9'' = Inr None \<and>
   getSsoConnectorById exampleFactories exampleQueries ''c9'' =
     ([FindById ''c9''], Inl (RequestError ''connector.not_found'' 404)) \<and>
   findById (ssoConnectors exampleQueries) ''c3'' = Inr (Some connectorLegacy) \<and>
   providerName connectorLegacy \<notin> dom exampleFactories \<and>
   getSsoConnectorById exampleFactories exampleQueries ''c3'' =
     ([FindById ''c3''], Inl (RequestError ''connector.not_found'' 404)) \<and>
   findById (ssoConnectors exampleQueries) ''c1'' = Inr (Some connectorOkta) \<and>
   providerName connectorOkta \<in> dom exampleFactories \<and>
   getSsoConnectorById exampleFactories exampleQueries ''c1'' =
     ([FindById ''c1''], Inr (Some connectorOkta))"
proof -
  have legacy: "providerName connectorLegacy \<notin> dom exampleFactories"
    by (simp add: domIff example_providers)
  have okta: "providerName connectorOkta \<in> dom exampleFactories"
    by (simp add: domIff example_providers)
  from getSsoConnectorById_not_found [of exampleQueries "''c9''" exampleFactories]
  have absent: "getSsoConnectorById exampleFactories exampleQueries ''c9'' =
     ([FindById ''c9''], Inl (RequestError ''connector.not_found'' 404))"
    using example_findById(1) by blast
  from getSsoConnectorById_not_found [of exampleQueries "''c3''" exampleFactories]
  have unsupported: "getSsoConnectorById exampleFactories exampleQueries ''c3'' =
     ([FindById ''c3''], Inl (RequestError ''connector.not_found'' 404))"
    using example_findById(2) legacy by blast
  from getSsoConnectorById_not_found [of exampleQueries "''c1''" exampleFactories]
  have supported: "getSsoConnectorById exampleFactories exampleQueries ''c1'' =
     ([FindById ''c1''], Inr (Some connectorOkta))"
    using example_findById(3) okta by blast
  show ?thesis
    using example_findById legacy okta absent unsupported supported by blast
qed

subsection \<open>IdP-initiated auth config lifecycle\<close>

text \<open>
  C6. \<open>createSsoConnectorIdpInitiatedAuthConfig\<close> looks the default application up
  first. When the lookup fails (the repository's not-found error for an id that resolves
  to no application) the operation fails with that error and inserts nothing. When the
  application is not of type Traditional or is third-party it fails with the 400 error
  \<^verbatim>\<open>connector.saml_idp_initiated_auth_invalid_application_type\<close> and inserts nothing.
  When the application is a first-party Traditional one it issues the repository insert
  with the given data and returns what the insert answers. The insert is issued in that
  case only.
\<close>

theorem createSsoConnectorIdpInitiatedAuthConfig_validation:
  "(\<forall>e. findApplicationById (applications queries) (defaultApplicationId data) = Inl e \<longrightarrow>
      createSsoConnectorIdpInitiatedAuthConfig queries data =
        ([FindApplicationById (defaultApplicationId data)], Inl e)) \<and>
   (\<forall>app. findApplicationById (applications queries) (defaultApplicationId data) = Inr app \<and>
          \<not> (type' app = Traditional \<and> \<not> isThirdParty app) \<longrightarrow>
      createSsoConnectorIdpInitiatedAuthConfig queries data =
        ([FindApplicationById (defaultApplicationId data)],
         Inl (RequestError ''connector.saml_idp_initiated_auth_invalid_application_type'' 400))) \<and>
   (\<forall>app. findApplicationById (applications queries) (defaultApplicationId data) = Inr app \<and>
          type' app = Traditional \<and> \<not> isThirdParty app \<longrightarrow>
      createSsoConnectorIdpInitiatedAuthConfig queries data =
        ([FindApplicationById (defaultApplicationId data), InsertIdpInitiatedAuthConfig data],
         insertIdpInitiatedAuthConfig (ssoConnectors queries) data)) \<and>
   (InsertIdpInitiatedAuthConfig data \<in> set (fst (createSsoConnectorIdpInitiatedAuthConfig queries data)) \<longleftrightarrow>
      (\<exists>app. findApplicationById (applications queries) (defaultApplicationId data) = Inr app \<and>
             type' app = Traditional \<and> \<not> isThirdParty app))"
  by (auto simp: createSsoConnectorIdpInitiatedAuthConfig_def assertThat_def
        isFirstPartyTraditional_def RequestError_code_def split: sum.splits)

lemma example_findApplicationById:
  "findApplicationById (applications exampleQueries) ''a1'' = Inr appTraditional"
  "findApplicationById (applications exampleQueries) ''a2'' = Inr appSpa"
  "findApplicationById (applications exampleQueries) ''a3'' = Inr appThirdParty"
  "findApplicationById (applications exampleQueries) ''a4'' = Inr appNoUris"
  "findApplicationById (applications exampleQueries) ''a9'' =
     Inl (RequestError ''entity.not_exists_with_id'' 404)"
  "findApplicationById (applications exampleQueries) '''' =
     Inl (RequestError ''entity.not_exists_with_id'' 404)"
  by (simp_all add: exampleQueries_def)

lemma example_application_types:
  "type' appTraditional = Traditional" "\<not> isThirdParty appTraditional"
  "type' appSpa \<noteq> Traditional" "isThirdParty appThirdParty"
  by (simp_all add: appTraditional_def appSpa_def appThirdParty_def)

lemma authConfigFor_application [simp]: "defaultApplicationId (authConfigFor a) = a"
  by (simp add: authConfigFor_def)

lemma example_insert [simp]: "insertIdpInitiatedAuthConfig (ssoConnectors exampleQueries) d = Inr d"
  by (simp add: exampleQueries_def)

theorem createSsoConnectorIdpInitiatedAuthConfig_validation_witness:
  "findApplicationById (applications exampleQueries) (defaultApplicationId (authConfigFor ''a9'')) =
     Inl (RequestError ''entity.not_exists_with_id'' 404) \<and>
   createSsoConnectorIdpInitiatedAuthConfig exampleQueries (authConfigFor ''a9'') =
     ([FindApplicationById ''a9''], Inl (RequestError ''entity.not_exists_with_id'' 404)) \<and>
   findApplicationById (applications exampleQueries) (defaultApplicationId (authConfigFor ''a2'')) =
     Inr appSpa \<and>
   \<not> (type' appSpa = Traditional \<and> \<not> isThirdParty appSpa) \<and>
   createSsoConnectorIdpInitiatedAuthConfig exampleQueries (authConfigFor ''a2'') =
     ([FindApplicationById ''a2''],
      Inl (RequestError ''connector.saml_idp_initiated_auth_invalid_application_type'' 400)) \<and>
   findApplicationById (applications exampleQueries) (defaultApplicationId (authConfigFor ''a3'')) =
     Inr appThirdParty \<and>
   \<not> (type' appThirdParty = Traditional \<and> \<not> isThirdParty appThirdParty) \<and>
   createSsoConnectorIdpInitiatedAuthConfig exampleQueries (authConfigFor ''a3'') =
     ([FindApplicationById ''a3''],
      Inl (RequestError ''connector.saml_idp_initiated_auth_invalid_application_type'' 400)) \<and>
   findApplicationById (applications exampleQueries) (defaultApplicationId (authConfigFor ''a1'')) =
     Inr appTraditional \<and>
   type' appTraditional = Traditional \<and> \<not> isThirdParty appTraditional \<and>
   createSsoConnectorIdpInitiatedAuthConfig exampleQueries (authConfigFor ''a1'') =
     ([FindApplicationById ''a1'', InsertIdpInitiatedAuthConfig (authConfigFor ''a1'')],
      Inr (authConfigFor ''a1''))"
proof -
  note apps = example_findApplicationById example_application_types
  from createSsoConnectorIdpInitiatedAuthConfig_validation [of exampleQueries "authConfigFor ''a9''"]
  have missing: "createSsoConnectorIdpInitiatedAuthConfig exampleQueries (authConfigFor ''a9'') =
     ([FindApplicationById ''a9''], Inl (RequestError ''entity.not_exists_with_id'' 404))"
    by (simp add: apps)
  from createSsoConnectorIdpInitiatedAuthConfig_validation [of exampleQueries "authConfigFor ''a2''"]
  have spa: "createSsoConnectorIdpInitiatedAuthConfig exampleQueries (authConfigFor ''a2'') =
     ([FindApplicationById ''a2''],
      Inl (RequestError ''connector.saml_idp_initiated_auth_invalid_application_type'' 400))"
    by (simp add: apps)
  from createSsoConnectorIdpInitiatedAuthConfig_validation [of exampleQueries "authConfigFor ''a3''"]
  have third: "createSsoConnectorIdpInitiatedAuthConfig exampleQueries (authConfigFor ''a3'') =
     ([FindApplicationById ''a3''],
      Inl (RequestError ''connector.saml_idp_initiated_auth_invalid_application_type'' 400))"
    by (simp add: apps)
  from createSsoConnectorIdpInitiatedAuthConfig_validation [of exampleQueries "authConfigFor ''a1''"]
  have first: "createSsoConnectorIdpInitiatedAuthConfig exampleQueries (authConfigFor ''a1'') =
     ([FindApplicationById ''a1'', InsertIdpInitiatedAuthConfig (authConfigFor ''a1'')],
      Inr (authConfigFor ''a1''))"
    by (simp add: apps)
  show ?thesis
    by (simp add: apps missing spa third first)
qed

text \<open>
  C7. \<open>updateSsoConnectorIdpInitiatedAuthConfig\<close> tests \<^verbatim>\<open>if (defaultApplicationId)\<close>:
  the application is looked up and its type validated if and only if the partial update
  carries a non-empty \<open>defaultApplicationId\<close>. An update without the field, or with the
  empty string, issues no application lookup and goes straight to the repository update
  (with the set, the connector id and mode replace). With a non-empty id the validation
  is that of create: a failed lookup and a wrong application type end the operation before
  any update.
\<close>

theorem updateSsoConnectorIdpInitiatedAuthConfig_validation:
  "((setDefaultApplicationId st = None \<or> setDefaultApplicationId st = Some []) \<longrightarrow>
      updateSsoConnectorIdpInitiatedAuthConfig queries cid st =
        ([UpdateIdpInitiatedAuthConfig \<lparr> set' = st, whereConnectorId = cid, jsonbMode = Replace \<rparr>],
         updateIdpInitiatedAuthConfig (ssoConnectors queries)
           \<lparr> set' = st, whereConnectorId = cid, jsonbMode = Replace \<rparr>)) \<and>
   (\<forall>a. setDefaultApplicationId st = Some a \<and> a \<noteq> [] \<longrightarrow>
      updateSsoConnectorIdpInitiatedAuthConfig queries cid st =
        (case findApplicationById (applications queries) a of
           Inl e \<Rightarrow> ([FindApplicationById a], Inl e)
         | Inr app \<Rightarrow>
             if type' app = Traditional \<and> \<not> isThirdParty app
             then ([FindApplicationById a,
                    UpdateIdpInitiatedAuthConfig
                      \<lparr> set' = st, whereConnectorId = cid, jsonbMode = Replace \<rparr>],
                   updateIdpInitiatedAuthConfig (ssoConnectors queries)
                     \<lparr> set' = st, whereConnectorId = cid, jsonbMode = Replace \<rparr>)
             else ([FindApplicationById a],
                   Inl (RequestError
                          ''connector.saml_idp_initiated_auth_invalid_application_type'' 400)))) \<and>
   ((\<exists>a. FindApplicationById a \<in> set (fst (updateSsoConnectorIdpInitiatedAuthConfig queries cid st))) \<longleftrightarrow>
      (\<exists>a. setDefaultApplicationId st = Some a \<and> a \<noteq> []))"
  by (auto simp: updateSsoConnectorIdpInitiatedAuthConfig_def assertThat_def truthy_def Let_def
        isFirstPartyTraditional_def RequestError_code_def split: sum.splits option.splits)

lemma example_sets:
  "setDefaultApplicationId setRedirectOnly = None"
  "setDefaultApplicationId (setApplication a) = Some a"
  by (simp_all add: setRedirectOnly_def setApplication_def)

lemma example_update:
  "updateIdpInitiatedAuthConfig (ssoConnectors exampleQueries)
     \<lparr> set' = st, whereConnectorId = cid, jsonbMode = Replace \<rparr> =
   Inr \<lparr> connectorId = cid, defaultApplicationId = ''a1'', redirectUri = None,
         authParameters = [] \<rparr>"
  by (simp add: exampleQueries_def)

theorem updateSsoConnectorIdpInitiatedAuthConfig_validation_witness:
  "setDefaultApplicationId setRedirectOnly = None \<and>
   updateSsoConnectorIdpInitiatedAuthConfig exampleQueries ''c1'' setRedirectOnly =
     ([UpdateIdpInitiatedAuthConfig
         \<lparr> set' = setRedirectOnly, whereConnectorId = ''c1'', jsonbMode = Replace \<rparr>],
      Inr \<lparr> connectorId = ''c1'', defaultApplicationId = ''a1'', redirectUri = None,
            authParameters = [] \<rparr>) \<and>
   setDefaultApplicationId (setApplication ''a2'') = Some ''a2'' \<and> ''a2'' \<noteq> [] \<and>
   updateSsoConnectorIdpInitiatedAuthConfig exampleQueries ''c1'' (setApplication ''a2'') =
     ([FindApplicationById ''a2''],
      Inl (RequestError ''connector.saml_idp_initiated_auth_invalid_application_type'' 400)) \<and>
   updateSsoConnectorIdpInitiatedAuthConfig exampleQueries ''c1'' (setApplication ''a9'') =
     ([FindApplicationById ''a9''], Inl (RequestError ''entity.not_exists_with_id'' 404)) \<and>
   updateSsoConnectorIdpInitiatedAuthConfig exampleQueries ''c1'' (setApplication ''a1'') =
     ([FindApplicationById ''a1'',
       UpdateIdpInitiatedAuthConfig
         \<lparr> set' = setApplication ''a1'', whereConnectorId = ''c1'', jsonbMode = Replace \<rparr>],
      Inr \<lparr> connectorId = ''c1'', defaultApplicationId = ''a1'', redirectUri = None,
            authParameters = [] \<rparr>)"
proof -
  note ex = example_sets example_update example_findApplicationById example_application_types
  from updateSsoConnectorIdpInitiatedAuthConfig_validation [of setRedirectOnly exampleQueries "''c1''"]
  have skip: "updateSsoConnectorIdpInitiatedAuthConfig exampleQueries ''c1'' setRedirectOnly =
     ([UpdateIdpInitiatedAuthConfig
         \<lparr> set' = setRedirectOnly, whereConnectorId = ''c1'', jsonbMode = Replace \<rparr>],
      Inr \<lparr> connectorId = ''c1'', defaultApplicationId = ''a1'', redirectUri = None,
            authParameters = [] \<rparr>)"
    by (simp add: ex)
  from updateSsoConnectorIdpInitiatedAuthConfig_validation
         [of "setApplication ''a2''" exampleQueries "''c1''"]
  have spa: "updateSsoConnectorIdpInitiatedAuthConfig exampleQueries ''c1'' (setApplication ''a2'') =
     ([FindApplicationById ''a2''],
      Inl (RequestError ''connector.saml_idp_initiated_auth_invalid_application_type'' 400))"
    by (simp add: ex)
  from updateSsoConnectorIdpInitiatedAuthConfig_validation
         [of "setApplication ''a9''" exampleQueries "''c1''"]
  have missing: "updateSsoConnectorIdpInitiatedAuthConfig exampleQueries ''c1'' (setApplication ''a9'') =
     ([FindApplicationById ''a9''], Inl (RequestError ''entity.not_exists_with_id'' 404))"
    by (simp add: ex)
  from updateSsoConnectorIdpInitiatedAuthConfig_validation
         [of "setApplication ''a1''" exampleQueries "''c1''"]
  have ok: "updateSsoConnectorIdpInitiatedAuthConfig exampleQueries ''c1'' (setApplication ''a1'') =
     ([FindApplicationById ''a1'',
       UpdateIdpInitiatedAuthConfig
         \<lparr> set' = setApplication ''a1'', whereConnectorId = ''c1'', jsonbMode = Replace \<rparr>],
      Inr \<lparr> connectorId = ''c1'', defaultApplicationId = ''a1'', redirectUri = None,
            authParameters = [] \<rparr>)"
    by (simp add: ex)
  show ?thesis
    by (simp add: example_sets skip spa missing ok)
qed

text \<open>
  The statement with "present" for "present and non-empty" fails: an update that sets
  \<open>defaultApplicationId\<close> to the empty string carries the field, yet no application is
  looked up (the lookup would have failed) and the repository update is issued.
\<close>

theorem updateSsoConnectorIdpInitiatedAuthConfig_present_counterexample:
  "setDefaultApplicationId (setApplication []) = Some [] \<and>
   findApplicationById (applications exampleQueries) [] =
     Inl (RequestError ''entity.not_exists_with_id'' 404) \<and>
   updateSsoConnectorIdpInitiatedAuthConfig exampleQueries ''c1'' (setApplication []) =
     ([UpdateIdpInitiatedAuthConfig
         \<lparr> set' = setApplication [], whereConnectorId = ''c1'', jsonbMode = Replace \<rparr>],
      Inr \<lparr> connectorId = ''c1'', defaultApplicationId = ''a1'', redirectUri = None,
            authParameters = [] \<rparr>)"
  by (simp add: updateSsoConnectorIdpInitiatedAuthConfig_def truthy_def Let_def example_sets
        example_update example_findApplicationById)

subsection \<open>SAML session creation\<close>

text \<open>
  C3. \<open>createIdpInitiatedSamlSsoSession\<close> issues exactly one repository call, the insert
  of a session (no lookup of the connector), and returns what the insert answers. The
  session carries the id the generator returned, the given connector id and the given
  assertion content. Its \<open>expiresAt\<close> is the time value of \<open>conditions.notOnOrAfter\<close> when
  that string is present and non-empty; when the conditions or the field are missing, or
  the field is the empty string, it is the current time plus the default TTL (a time
  within the range of \<^verbatim>\<open>Date\<close>).
\<close>

theorem createIdpInitiatedSamlSsoSession_expiry:
  "\<exists>session.
     createIdpInitiatedSamlSsoSession rt ttl queries cid content =
       ([InsertIdpInitiatedSamlSsoSession session],
        insertIdpInitiatedSamlSsoSession (ssoConnectors queries) session) \<and>
     sessionId session = generateStandardId rt \<and>
     sessionConnectorId session = cid \<and>
     assertionContent session = content \<and>
     (\<forall>c t. conditions content = Some c \<and> notOnOrAfter c = Some t \<and> t \<noteq> [] \<longrightarrow>
        expiresAt session = dateParse rt t) \<and>
     ((conditions content = None \<or>
       (\<exists>c. conditions content = Some c \<and>
            (notOnOrAfter c = None \<or> notOnOrAfter c = Some []))) \<and>
      \<bar>dateNow rt + ttl\<bar> \<le> 8640000000000000 \<longrightarrow>
        expiresAt session = TimeValue (dateNow rt + ttl))"
  by (auto simp: createIdpInitiatedSamlSsoSession_def sessionExpiresAt_def
        conditionsNotOnOrAfter_def truthy_def newDate_def Let_def)

lemma example_runtime:
  "generateStandardId exampleRuntime = ''nzfpcmb3ry5x0q9dtw7ks''"
  "dateNow exampleRuntime = 1700000000000"
  "dateParse exampleRuntime ''2023-11-14T22:18:20.000Z'' = TimeValue 1700000300000"
  "dateParse exampleRuntime [] = NaN"
  by (simp_all add: exampleRuntime_def)

lemma example_assertions:
  "conditions (assertionWith t) = Some \<lparr> notBefore = None, notOnOrAfter = t \<rparr>"
  "conditions assertionBare = None"
  by (simp_all add: assertionWith_def assertionBare_def)

theorem createIdpInitiatedSamlSsoSession_expiry_witness:
  "(\<exists>session.
      fst (createIdpInitiatedSamlSsoSession exampleRuntime 600000 exampleQueries ''c1''
             (assertionWith (Some ''2023-11-14T22:18:20.000Z''))) =
        [InsertIdpInitiatedSamlSsoSession session] \<and>
      expiresAt session = TimeValue 1700000300000) \<and>
   (\<exists>session.
      fst (createIdpInitiatedSamlSsoSession exampleRuntime 600000 exampleQueries ''c1''
             assertionBare) =
        [InsertIdpInitiatedSamlSsoSession session] \<and>
      sessionId session = ''nzfpcmb3ry5x0q9dtw7ks'' \<and>
      expiresAt session = TimeValue 1700000600000)"
proof -
  from createIdpInitiatedSamlSsoSession_expiry
         [of exampleRuntime 600000 exampleQueries "''c1''"
             "assertionWith (Some ''2023-11-14T22:18:20.000Z'')"]
  have a: "\<exists>session.
      fst (createIdpInitiatedSamlSsoSession exampleRuntime 600000 exampleQueries ''c1''
             (assertionWith (Some ''2023-11-14T22:18:20.000Z''))) =
        [InsertIdpInitiatedSamlSsoSession session] \<and>
      expiresAt session = TimeValue 1700000300000"
    by (auto simp: example_runtime example_assertions)
  from createIdpInitiatedSamlSsoSession_expiry
         [of exampleRuntime 600000 exampleQueries "''c1''" assertionBare]
  have b: "\<exists>session.
      fst (createIdpInitiatedSamlSsoSession exampleRuntime 600000 exampleQueries ''c1''
             assertionBare) =
        [InsertIdpInitiatedSamlSsoSession session] \<and>
      sessionId session = ''nzfpcmb3ry5x0q9dtw7ks'' \<and>
      expiresAt session = TimeValue 1700000600000"
    by (auto simp: example_runtime example_assertions)
  from a b show ?thesis by (rule conjI)
qed

text \<open>
  The statement with "present" for "present and non-empty" fails: for an assertion whose
  \<open>notOnOrAfter\<close> is the empty string the session does not expire at the time value of
  that string (an invalid date, \<open>NaN\<close>) but at the current time plus the TTL.
\<close>

theorem createIdpInitiatedSamlSsoSession_present_counterexample:
  "conditions (assertionWith (Some [])) = Some \<lparr> notBefore = None, notOnOrAfter = Some [] \<rparr> \<and>
   dateParse exampleRuntime [] = NaN \<and>
   dateNow exampleRuntime + 600000 = 1700000600000 \<and>
   fst (createIdpInitiatedSamlSsoSession exampleRuntime 600000 exampleQueries ''c1''
          (assertionWith (Some []))) =
     [InsertIdpInitiatedSamlSsoSession
        \<lparr> sessionId = ''nzfpcmb3ry5x0q9dtw7ks'', sessionConnectorId = ''c1'',
          assertionContent = assertionWith (Some []),
          expiresAt = TimeValue 1700000600000 \<rparr>]"
  by (simp add: createIdpInitiatedSamlSsoSession_def sessionExpiresAt_def
        conditionsNotOnOrAfter_def truthy_def newDate_def Let_def example_runtime
        example_assertions)

subsection \<open>JavaScript objects and \<^verbatim>\<open>URLSearchParams\<close>\<close>

lemma set_ownEntries: "set (ownEntries obj) = set obj"
  by (auto simp: ownEntries_def)

lemma distinct_keys_sort_key:
  "distinct (map fst (sort_key f xs)) = distinct (map fst xs)"
  by (simp add: distinct_map)

lemma distinct_keys_ownEntries:
  assumes "distinct (map fst obj)"
  shows "distinct (map fst (ownEntries obj))"
proof -
  have "distinct (map fst (filter (\<lambda>p. isArrayIndex (fst p)) obj))"
       "distinct (map fst (filter (\<lambda>p. \<not> isArrayIndex (fst p)) obj))"
    using assms by (simp_all add: distinct_map_filter)
  then show ?thesis
    by (auto simp: ownEntries_def distinct_keys_sort_key)
qed

lemma map_of_ownEntries:
  assumes "distinct (map fst obj)"
  shows "map_of (ownEntries obj) = map_of obj"
  using assms by (simp add: map_of_inject_set distinct_keys_ownEntries set_ownEntries)

lemma map_of_putProp: "map_of (putProp k v obj) = (map_of obj)(k \<mapsto> v)"
  by (induction obj) auto

lemma keys_putProp: "fst ` set (putProp k v obj) = insert k (fst ` set obj)"
  by (induction obj) auto

lemma distinct_keys_putProp:
  "distinct (map fst obj) \<Longrightarrow> distinct (map fst (putProp k v obj))"
  by (induction obj) (auto simp: keys_putProp)

lemma distinct_keys_foldl_putProp:
  "distinct (map fst obj) \<Longrightarrow>
   distinct (map fst (foldl (\<lambda>obj p. putProp (fst p) (snd p) obj) obj ps))"
  by (induction ps arbitrary: obj) (simp_all add: distinct_keys_putProp)

lemma map_of_foldl_putProp:
  "map_of (foldl (\<lambda>obj p. putProp (fst p) (snd p) obj) obj ps) = map_of obj ++ map_of (rev ps)"
proof (induction ps arbitrary: obj)
  case Nil
  then show ?case by simp
next
  case (Cons p ps)
  show ?case
    by (cases p) (simp add: Cons.IH map_of_putProp map_add_def fun_eq_iff split: option.splits)
qed

lemma map_of_rev_distinct:
  "distinct (map fst xs) \<Longrightarrow> map_of (rev xs) = map_of xs"
  by (simp add: map_of_inject_set rev_map [symmetric])

lemma distinct_keys_objectLiteral: "distinct (map fst (objectLiteral props spread))"
  by (simp add: objectLiteral_def distinct_keys_foldl_putProp)

lemma map_of_objectLiteral:
  assumes "distinct (map fst props)" "distinct (map fst spread)"
  shows "map_of (objectLiteral props spread) = map_of props ++ map_of spread"
proof -
  have "map_of (rev (ownEntries spread)) = map_of spread"
    using assms(2) by (simp add: map_of_rev_distinct distinct_keys_ownEntries map_of_ownEntries)
  then show ?thesis
    using assms(1) by (simp add: objectLiteral_def map_of_foldl_putProp map_of_rev_distinct)
qed

lemma set_restWithout: "set (restWithout k obj) = {p \<in> set obj. fst p \<noteq> k}"
  by (auto simp: restWithout_def set_ownEntries)

lemma distinct_keys_restWithout:
  "distinct (map fst obj) \<Longrightarrow> distinct (map fst (restWithout k obj))"
  by (simp add: restWithout_def distinct_map_filter distinct_keys_ownEntries)

lemma map_of_restWithout:
  assumes "distinct (map fst obj)"
  shows "map_of (restWithout k obj) = (map_of obj)(k := None)"
proof
  fix x
  have d: "distinct (map fst (restWithout k obj))"
    using assms by (rule distinct_keys_restWithout)
  show "map_of (restWithout k obj) x = ((map_of obj)(k := None)) x"
  proof (cases "map_of (restWithout k obj) x")
    case None
    then have "x \<notin> fst ` set (restWithout k obj)"
      by (simp add: map_of_eq_None_iff)
    then have "x = k \<or> x \<notin> fst ` set obj"
      by (force simp: set_restWithout)
    then have "((map_of obj)(k := None)) x = None"
      by (auto simp: map_of_eq_None_iff)
    with None show ?thesis by simp
  next
    case (Some v)
    then have "(x, v) \<in> set (restWithout k obj)"
      by (rule map_of_SomeD)
    then have "(x, v) \<in> set obj" "x \<noteq> k"
      by (simp_all add: set_restWithout)
    with assms Some show ?thesis by simp
  qed
qed

subsection \<open>Splitting and joining strings\<close>

lemma set_uniq: "set (uniq xs) = set xs"
  by (induction xs) auto

lemma distinct_uniq: "distinct (uniq xs)"
  by (induction xs) (auto simp: set_uniq)

lemma split_nonempty: "split sep s \<noteq> []"
  by (induction s) (auto split: list.splits)

lemma split_no_sep: "t \<in> set (split sep s) \<Longrightarrow> sep \<notin> set t"
proof (induction s arbitrary: t)
  case Nil
  then show ?case by simp
next
  case (Cons c cs)
  show ?case
  proof (cases "c = sep")
    case True
    with Cons show ?thesis by auto
  next
    case False
    obtain u us where u: "split sep cs = u # us"
      using split_nonempty [of sep cs] by (cases "split sep cs") auto
    with Cons.prems False have "t = c # u \<or> t \<in> set us"
      by simp
    with Cons.IH [of u] Cons.IH [of t] u False show ?thesis
      by auto
  qed
qed

lemma split_token: "sep \<notin> set x \<Longrightarrow> split sep x = [x]"
  by (induction x) auto

lemma split_append_sep: "sep \<notin> set x \<Longrightarrow> split sep (x @ sep # rest) = x # split sep rest"
  by (induction x) auto

lemma split_join:
  "xs \<noteq> [] \<Longrightarrow> \<forall>x \<in> set xs. sep \<notin> set x \<Longrightarrow> split sep (join [sep] xs) = xs"
  by (induction "[sep]" xs rule: join.induct) (simp_all add: split_token split_append_sep)

subsection \<open>The query string loses nothing\<close>

lemma hexDigit_table:
  "list_all
     (\<lambda>n. isHexDigit (hexDigit n) \<and> hexValue (hexDigit n) = n \<and>
          hexDigit n \<noteq> CHR ''&'' \<and> hexDigit n \<noteq> CHR ''='')
     [0..<16]"
  by code_simp

lemma hexDigit_roundtrip:
  assumes "n < 16"
  shows "isHexDigit (hexDigit n)" and "hexValue (hexDigit n) = n"
    and "hexDigit n \<noteq> CHR ''&''" and "hexDigit n \<noteq> CHR ''=''"
proof -
  from assms have "n \<in> set [0..<16]"
    by simp
  with hexDigit_table
  have "isHexDigit (hexDigit n) \<and> hexValue (hexDigit n) = n \<and>
        hexDigit n \<noteq> CHR ''&'' \<and> hexDigit n \<noteq> CHR ''=''"
    unfolding list_all_iff by blast
  then show "isHexDigit (hexDigit n)" and "hexValue (hexDigit n) = n"
    and "hexDigit n \<noteq> CHR ''&''" and "hexDigit n \<noteq> CHR ''=''"
    by simp_all
qed

lemma safe_not_special:
  assumes "isUrlencodedSafe c"
  shows "c \<noteq> CHR ''+''" "c \<noteq> CHR ''%''" "c \<noteq> CHR ''&''" "c \<noteq> CHR ''=''"
  using assms by (auto simp: isUrlencodedSafe_def)

lemma urlencodeByte_no_separator:
  "CHR ''&'' \<notin> set (urlencodeByte c)" "CHR ''='' \<notin> set (urlencodeByte c)"
  using safe_not_special [of c] hexDigit_roundtrip(3,4) [of "of_char c div 16"]
    hexDigit_roundtrip(3,4) [of "of_char c mod 16"]
  by (auto simp: urlencodeByte_def less_mult_imp_div_less)

lemma urlencode_no_separator:
  "CHR ''&'' \<notin> set (urlencode s)" "CHR ''='' \<notin> set (urlencode s)"
  by (simp_all add: urlencode_def urlencodeByte_no_separator)

lemma urldecode_urlencodeByte: "urldecode (urlencodeByte c @ rest) = c # urldecode rest"
proof -
  have hi: "of_char c div 16 < (16::nat)"
    by (simp add: less_mult_imp_div_less)
  have lo: "of_char c mod 16 < (16::nat)"
    by simp
  have "char_of (of_char c div 16 * 16 + of_char c mod 16 :: nat) = c"
    by simp
  with hexDigit_roundtrip(1,2) [OF hi] hexDigit_roundtrip(1,2) [OF lo] safe_not_special [of c]
  show ?thesis
    by (simp add: urlencodeByte_def)
qed

lemma urldecode_urlencode_append: "urldecode (urlencode s @ rest) = s @ urldecode rest"
  by (induction s) (simp_all add: urlencode_def urldecode_urlencodeByte)

lemma urldecode_urlencode: "urldecode (urlencode s) = s"
  using urldecode_urlencode_append [of s "[]"] by simp

lemma nameValue_pair:
  "nameValue (urlencode k @ ''='' @ urlencode v) = (urlencode k, urlencode v)"
proof -
  have "\<forall>c \<in> set (urlencode k). c \<noteq> CHR ''=''"
    using urlencode_no_separator(2) [of k] by auto
  then show ?thesis
    by (simp add: nameValue_def takeWhile_append2 dropWhile_append3)
qed

lemma split_join_pieces:
  assumes "\<forall>x \<in> set xs. sep \<notin> set x \<and> x \<noteq> []"
  shows "filter (\<lambda>piece. piece \<noteq> []) (split sep (join [sep] xs)) = xs"
proof (cases xs)
  case Nil
  then show ?thesis by simp
next
  case (Cons x ys)
  with assms have "split sep (join [sep] xs) = xs"
    by (intro split_join) auto
  with assms show ?thesis
    by (simp add: filter_id_conv)
qed

lemma parseQuery_toString: "parseQuery (toString params) = params"
proof -
  let ?piece = "\<lambda>p. urlencode (fst p) @ ''='' @ urlencode (snd p)"
  have "\<forall>x \<in> set (map ?piece params). CHR ''&'' \<notin> set x \<and> x \<noteq> []"
    by (auto simp: urlencode_no_separator)
  then have "filter (\<lambda>piece. piece \<noteq> []) (split CHR ''&'' (toString params)) = map ?piece params"
    unfolding toString_def by (rule split_join_pieces)
  then show ?thesis
    by (simp add: parseQuery_def nameValue_pair urldecode_urlencode map_idI del: append.simps)
qed

lemma keys_foldl_putProp:
  "fst ` set (foldl (\<lambda>obj p. putProp (fst p) (snd p) obj) obj ps) =
   fst ` set obj \<union> fst ` set ps"
  by (induction ps arbitrary: obj) (auto simp: keys_putProp)

lemma keys_objectLiteral:
  "fst ` set (objectLiteral props spread) = fst ` set props \<union> fst ` set spread"
  by (simp add: objectLiteral_def keys_foldl_putProp set_ownEntries)

lemma keys_restWithout: "k \<notin> fst ` set (restWithout k obj)"
  by (auto simp: set_restWithout)

subsection \<open>Sign-in URL synthesis\<close>

text \<open>
  The entries of the query: the own entries of the object literal, then the scope. The
  literal holds the five standard entries, each overridden by a like-named extra
  parameter, and the extra parameters.
\<close>

lemma queryParameters_unfold:
  "queryParameters reservedScopes authConfig uri =
     ownEntries
       (objectLiteral
          [(''client_id'', defaultApplicationId authConfig),
           (''redirect_uri'', uri),
           (''response_type'', ''code''),
           (''prompt'', ''login''),
           (''direct_sign_in'', ''sso:'' @ connectorId authConfig)]
          (restWithout ''scope'' (authParameters authConfig))) @
     [(''scope'',
       withReservedScopes reservedScopes
         (case map_of (authParameters authConfig) ''scope'' of
            None \<Rightarrow> []
          | Some s \<Rightarrow> split CHR '' '' s))]"
  by (simp add: queryParameters_def Let_def newURLSearchParams_def append'_def getProp_def
        QueryKey_ClientId_def QueryKey_RedirectUri_def QueryKey_ResponseType_def
        QueryKey_Prompt_def QueryKey_DirectSignIn_def QueryKey_Scope_def Prompt_Login_def)

lemma scope_not_in_literal:
  "''scope'' \<notin> fst ` set
     (ownEntries
        (objectLiteral
           [(''client_id'', a), (''redirect_uri'', u), (''response_type'', ''code''),
            (''prompt'', ''login''), (''direct_sign_in'', d)]
           (restWithout ''scope'' obj)))"
  using keys_restWithout [of "''scope''" obj]
  by (simp add: set_ownEntries keys_objectLiteral)

lemma distinct_keys_queryParameters:
  "distinct (map fst (queryParameters reservedScopes authConfig uri))"
  using scope_not_in_literal
  by (simp add: queryParameters_unfold distinct_keys_ownEntries distinct_keys_objectLiteral)

lemma map_of_queryParameters:
  assumes "distinct (map fst (authParameters authConfig))"
  shows "map_of (queryParameters reservedScopes authConfig uri) =
           (map_of [(''client_id'', defaultApplicationId authConfig),
                    (''redirect_uri'', uri),
                    (''response_type'', ''code''),
                    (''prompt'', ''login''),
                    (''direct_sign_in'', ''sso:'' @ connectorId authConfig)] ++
            map_of (authParameters authConfig))
           (''scope'' \<mapsto>
              withReservedScopes reservedScopes
                (case map_of (authParameters authConfig) ''scope'' of
                   None \<Rightarrow> []
                 | Some s \<Rightarrow> split CHR '' '' s))"
proof -
  let ?std = "[(''client_id'', defaultApplicationId authConfig),
               (''redirect_uri'', uri),
               (''response_type'', ''code''),
               (''prompt'', ''login''),
               (''direct_sign_in'', ''sso:'' @ connectorId authConfig)]"
  let ?extra = "restWithout ''scope'' (authParameters authConfig)"
  have std: "distinct (map fst ?std)" by simp
  have extra: "distinct (map fst ?extra)"
    using assms by (rule distinct_keys_restWithout)
  have "map_of (ownEntries (objectLiteral ?std ?extra)) = map_of ?std ++ map_of ?extra"
    using map_of_objectLiteral [OF std extra]
    by (simp only: map_of_ownEntries [OF distinct_keys_objectLiteral])
  also have "map_of ?extra = (map_of (authParameters authConfig))(''scope'' := None)"
    using assms by (rule map_of_restWithout)
  finally have lit: "map_of (ownEntries (objectLiteral ?std ?extra)) =
      map_of ?std ++ (map_of (authParameters authConfig))(''scope'' := None)" .
  show ?thesis
    unfolding queryParameters_unfold map_of_append lit
    by (rule ext) (simp add: map_add_def split: option.splits)
qed

lemma entries_of_merge:
  assumes "distinct (map fst std)" and "distinct (map fst ap)"
    and "fst ` set std \<inter> fst ` set ap = {}" and "s \<notin> fst ` set std"
  shows "{(k, v). ((map_of std ++ map_of ap)(s \<mapsto> sv)) k = Some v} =
         set std \<union> {p \<in> set ap. fst p \<noteq> s} \<union> {(s, sv)}"
proof -
  have "((map_of std ++ map_of ap)(s \<mapsto> sv)) k = Some v \<longleftrightarrow>
        (k, v) \<in> set std \<union> {p \<in> set ap. fst p \<noteq> s} \<union> {(s, sv)}" for k v
  proof (cases "k = s")
    case True
    with assms(4) show ?thesis by force
  next
    case False
    show ?thesis
    proof (cases "map_of ap k")
      case None
      then have "(k, v) \<notin> set ap"
        by (metis map_of_eq_None_iff fst_conv imageI)
      with None False assms(1) show ?thesis
        by (simp add: map_add_def)
    next
      case (Some w)
      then have "(k, w) \<in> set ap" by (rule map_of_SomeD)
      then have "k \<in> fst ` set ap" by force
      with assms(3) have std: "(k, v) \<notin> set std" by force
      from assms(2) have "(k, v) \<in> set ap \<longleftrightarrow> map_of ap k = Some v" by simp
      with Some have "(k, v) \<in> set ap \<longleftrightarrow> w = v" by simp
      with Some False std show ?thesis
        by (simp add: map_add_def)
    qed
  qed
  then show ?thesis by auto
qed

lemma getIdpInitiatedSamlSsoSignInUrl_resolved:
  assumes "snd (resolveRedirectUri queries authConfig) = Some uri" "uri \<noteq> []"
  shows "getIdpInitiatedSamlSsoSignInUrl rt reservedScopes queries issuer authConfig =
           (fst (resolveRedirectUri queries authConfig),
            newURL rt (issuer @ ''/auth?'' @
                       toString (queryParameters reservedScopes authConfig uri)))"
  using assms
  by (cases "resolveRedirectUri queries authConfig")
     (simp add: getIdpInitiatedSamlSsoSignInUrl_def truthy_def)

lemma getIdpInitiatedSamlSsoSignInUrl_unresolved:
  assumes "snd (resolveRedirectUri queries authConfig) = None \<or>
           snd (resolveRedirectUri queries authConfig) = Some []"
  shows "getIdpInitiatedSamlSsoSignInUrl rt reservedScopes queries issuer authConfig =
           (fst (resolveRedirectUri queries authConfig),
            Inl (RequestError ''oidc.invalid_redirect_uri'' 400))"
  using assms
  by (cases "resolveRedirectUri queries authConfig")
     (auto simp: getIdpInitiatedSamlSsoSignInUrl_def truthy_def RequestError_code_def)

text \<open>
  C1. For an \<open>authConfig\<close> whose \<open>authParameters\<close> is an object (each key once) with none
  of the five standard keys, and whose redirect URI resolves to a non-empty \<open>uri\<close>,
  \<open>getIdpInitiatedSamlSsoSignInUrl\<close> returns \<^verbatim>\<open>new URL\<close> of
  \<open>issuer @ ''/auth?'' @ toString params\<close>, where the query string reads back as \<open>params\<close>,
  and \<open>params\<close> holds each key once and exactly these entries: \<open>client_id\<close> the default
  application id, \<open>redirect_uri\<close> the resolved URI, \<open>response_type = code\<close>,
  \<open>prompt = login\<close>, \<open>direct_sign_in\<close> the text \<open>sso:\<close> followed by the connector id,
  every entry of \<open>authParameters\<close> but \<open>scope\<close> as it is, and a \<open>scope\<close> entry.
\<close>

theorem getIdpInitiatedSamlSsoSignInUrl_query:
  assumes "distinct (map fst (authParameters authConfig))"
    and "snd (resolveRedirectUri queries authConfig) = Some uri" and "uri \<noteq> []"
    and "set [''client_id'', ''redirect_uri'', ''response_type'', ''prompt'', ''direct_sign_in''] \<inter>
         fst ` set (authParameters authConfig) = {}"
  shows "\<exists>params.
           snd (getIdpInitiatedSamlSsoSignInUrl rt reservedScopes queries issuer authConfig) =
             newURL rt (issuer @ ''/auth?'' @ toString params) \<and>
           parseQuery (toString params) = params \<and>
           distinct (map fst params) \<and>
           set params =
             {(''client_id'', defaultApplicationId authConfig),
              (''redirect_uri'', uri),
              (''response_type'', ''code''),
              (''prompt'', ''login''),
              (''direct_sign_in'', ''sso:'' @ connectorId authConfig)} \<union>
             {p \<in> set (authParameters authConfig). fst p \<noteq> ''scope''} \<union>
             {(''scope'',
               withReservedScopes reservedScopes
                 (case map_of (authParameters authConfig) ''scope'' of
                    None \<Rightarrow> []
                  | Some s \<Rightarrow> split CHR '' '' s))}"
proof -
  let ?params = "queryParameters reservedScopes authConfig uri"
  let ?ap = "authParameters authConfig"
  have d: "distinct (map fst ?params)"
    by (rule distinct_keys_queryParameters)
  have "set ?params = {(k, v). map_of ?params k = Some v}"
    using d by (rule set_map_of_compr)
  also have "\<dots> =
             set [(''client_id'', defaultApplicationId authConfig),
                  (''redirect_uri'', uri),
                  (''response_type'', ''code''),
                  (''prompt'', ''login''),
                  (''direct_sign_in'', ''sso:'' @ connectorId authConfig)] \<union>
             {p \<in> set ?ap. fst p \<noteq> ''scope''} \<union>
             {(''scope'',
               withReservedScopes reservedScopes
                 (case map_of ?ap ''scope'' of None \<Rightarrow> [] | Some s \<Rightarrow> split CHR '' '' s))}"
    unfolding map_of_queryParameters [OF assms(1)]
    using assms(1,4) by (intro entries_of_merge) simp_all
  also have "\<dots> =
             {(''client_id'', defaultApplicationId authConfig),
              (''redirect_uri'', uri),
              (''response_type'', ''code''),
              (''prompt'', ''login''),
              (''direct_sign_in'', ''sso:'' @ connectorId authConfig)} \<union>
             {p \<in> set ?ap. fst p \<noteq> ''scope''} \<union>
             {(''scope'',
               withReservedScopes reservedScopes
                 (case map_of ?ap ''scope'' of None \<Rightarrow> [] | Some s \<Rightarrow> split CHR '' '' s))}"
    (is "_ = ?R")
    by simp
  finally have "set ?params = ?R" .
  with d getIdpInitiatedSamlSsoSignInUrl_resolved [OF assms(2,3)] show ?thesis
    by (intro exI [of _ ?params]) (simp add: parseQuery_toString)
qed

lemmas url_eval =
  getIdpInitiatedSamlSsoSignInUrl_def resolveRedirectUri_def trySafe_def truthy_def
  RequestError_code_def newURL_def queryParameters_def toString_def getProp_def
  restWithout_def ownEntries_def isArrayIndex_def isDigit_def decimalValue_def
  newURLSearchParams_def objectLiteral_def append'_def withReservedScopes_def urlencode_def
  urlencodeByte_def isUrlencodedSafe_def hexDigit_def Let_def
  QueryKey_ClientId_def QueryKey_RedirectUri_def QueryKey_ResponseType_def
  QueryKey_Prompt_def QueryKey_DirectSignIn_def QueryKey_Scope_def Prompt_Login_def

lemma example_plain_url:
  "getIdpInitiatedSamlSsoSignInUrl exampleRuntime exampleReservedScopes exampleQueries
     ''https://issuer.example'' acPlain =
   ([], Inr (URL ''https://issuer.example/auth?client_id=a1&redirect_uri=https%3A%2F%2Fcb&response_type=code&prompt=login&direct_sign_in=sso%3Ac1&resource=https%3A%2F%2Fapi.example%2Fv1&scope=openid+offline_access+profile+a+b''))"
  by (simp add: url_eval acPlain_def exampleReservedScopes_def exampleRuntime_def)

lemma example_plain_resolved:
  "snd (resolveRedirectUri exampleQueries acPlain) = Some ''https://cb''"
  by (simp add: resolveRedirectUri_def acPlain_def)

theorem getIdpInitiatedSamlSsoSignInUrl_query_witness:
  "distinct (map fst (authParameters acPlain)) \<and>
   snd (resolveRedirectUri exampleQueries acPlain) = Some ''https://cb'' \<and>
   ''https://cb'' \<noteq> [] \<and>
   fst ` set (authParameters acPlain) = {''scope'', ''resource''} \<and>
   (\<exists>params.
      snd (getIdpInitiatedSamlSsoSignInUrl exampleRuntime exampleReservedScopes exampleQueries
             ''https://issuer.example'' acPlain) =
        newURL exampleRuntime (''https://issuer.example'' @ ''/auth?'' @ toString params) \<and>
      distinct (map fst params) \<and>
      set params =
        {(''client_id'', ''a1''), (''redirect_uri'', ''https://cb''), (''response_type'', ''code''),
         (''prompt'', ''login''), (''direct_sign_in'', ''sso:c1''),
         (''resource'', ''https://api.example/v1''),
         (''scope'', ''openid offline_access profile a b'')}) \<and>
   getIdpInitiatedSamlSsoSignInUrl exampleRuntime exampleReservedScopes exampleQueries
     ''https://issuer.example'' acPlain =
   ([], Inr (URL ''https://issuer.example/auth?client_id=a1&redirect_uri=https%3A%2F%2Fcb&response_type=code&prompt=login&direct_sign_in=sso%3Ac1&resource=https%3A%2F%2Fapi.example%2Fv1&scope=openid+offline_access+profile+a+b''))"
proof -
  have obj: "distinct (map fst (authParameters acPlain))"
    by (simp add: acPlain_def)
  have keys: "fst ` set (authParameters acPlain) = {''scope'', ''resource''}"
    by (simp add: acPlain_def)
  have fresh: "set [''client_id'', ''redirect_uri'', ''response_type'', ''prompt'', ''direct_sign_in''] \<inter>
         fst ` set (authParameters acPlain) = {}"
    unfolding keys by simp
  have uri: "''https://cb'' \<noteq> []" by simp
  have entries: "{p \<in> set (authParameters acPlain). fst p \<noteq> ''scope''} =
    {(''resource'', ''https://api.example/v1'')}"
    by (auto simp: acPlain_def)
  have scope: "withReservedScopes exampleReservedScopes
          (case map_of (authParameters acPlain) ''scope'' of
             None \<Rightarrow> []
           | Some s \<Rightarrow> split CHR '' '' s) = ''openid offline_access profile a b''"
    by (simp add: acPlain_def withReservedScopes_def exampleReservedScopes_def)
  have fields: "defaultApplicationId acPlain = ''a1''" "connectorId acPlain = ''c1''"
    by (simp_all add: acPlain_def)
  from getIdpInitiatedSamlSsoSignInUrl_query
         [OF obj example_plain_resolved uri fresh, of exampleRuntime exampleReservedScopes
             "''https://issuer.example''"]
  obtain params where
    url: "snd (getIdpInitiatedSamlSsoSignInUrl exampleRuntime exampleReservedScopes exampleQueries
             ''https://issuer.example'' acPlain) =
        newURL exampleRuntime (''https://issuer.example'' @ ''/auth?'' @ toString params)" and
    once: "distinct (map fst params)" and
    entries': "set params =
        {(''client_id'', defaultApplicationId acPlain),
         (''redirect_uri'', ''https://cb''),
         (''response_type'', ''code''),
         (''prompt'', ''login''),
         (''direct_sign_in'', ''sso:'' @ connectorId acPlain)} \<union>
        {p \<in> set (authParameters acPlain). fst p \<noteq> ''scope''} \<union>
        {(''scope'',
          withReservedScopes exampleReservedScopes
            (case map_of (authParameters acPlain) ''scope'' of
               None \<Rightarrow> []
             | Some s \<Rightarrow> split CHR '' '' s))}"
    by blast
  have "set params =
        {(''client_id'', ''a1''), (''redirect_uri'', ''https://cb''), (''response_type'', ''code''),
         (''prompt'', ''login''), (''direct_sign_in'', ''sso:c1''),
         (''resource'', ''https://api.example/v1''),
         (''scope'', ''openid offline_access profile a b'')}"
    unfolding entries' entries scope fields by auto
  with url once have "\<exists>params.
      snd (getIdpInitiatedSamlSsoSignInUrl exampleRuntime exampleReservedScopes exampleQueries
             ''https://issuer.example'' acPlain) =
        newURL exampleRuntime (''https://issuer.example'' @ ''/auth?'' @ toString params) \<and>
      distinct (map fst params) \<and>
      set params =
        {(''client_id'', ''a1''), (''redirect_uri'', ''https://cb''), (''response_type'', ''code''),
         (''prompt'', ''login''), (''direct_sign_in'', ''sso:c1''),
         (''resource'', ''https://api.example/v1''),
         (''scope'', ''openid offline_access profile a b'')}"
    by blast
  with obj example_plain_resolved uri keys example_plain_url show ?thesis
    by (intro conjI)
qed

text \<open>
  The statement for every \<open>authConfig\<close> fails where \<open>authParameters\<close> has a standard key
  of its own: with \<open>client_id: "x"\<close> the issued URL carries \<open>client_id=x\<close>, not the
  default application id \<open>a1\<close>.
\<close>

theorem getIdpInitiatedSamlSsoSignInUrl_query_counterexample:
  "snd (resolveRedirectUri exampleQueries acOverride) = Some ''https://cb'' \<and>
   defaultApplicationId acOverride = ''a1'' \<and>
   map_of (queryParameters exampleReservedScopes acOverride ''https://cb'') ''client_id'' = Some ''x'' \<and>
   getIdpInitiatedSamlSsoSignInUrl exampleRuntime exampleReservedScopes exampleQueries
     ''https://issuer.example'' acOverride =
   ([], Inr (URL ''https://issuer.example/auth?client_id=x&redirect_uri=https%3A%2F%2Fcb&response_type=code&prompt=login&direct_sign_in=sso%3Ac1&scope=openid+offline_access+profile+custom''))"
  by (simp add: url_eval acOverride_def exampleReservedScopes_def exampleRuntime_def)

text \<open>
  C2. The redirect URI of \<open>getIdpInitiatedSamlSsoSignInUrl\<close> is \<open>authConfig.redirectUri\<close>
  when that is set, and no application is looked up then; otherwise it is the first
  registered redirect URI of the default application. A failed lookup is not propagated:
  it counts as no URI. The operation fails with the 400 error
  \<^verbatim>\<open>oidc.invalid_redirect_uri\<close> if and only if the URI so resolved is missing or empty:
  the configured \<open>redirectUri\<close> is the empty string, or it is not set and the lookup
  fails, or the application has no registered URI, or its first one is empty.
\<close>

theorem getIdpInitiatedSamlSsoSignInUrl_redirectUri:
  "(\<forall>r. redirectUri authConfig = Some r \<and> r \<noteq> [] \<longrightarrow>
      getIdpInitiatedSamlSsoSignInUrl rt reservedScopes queries issuer authConfig =
        ([], newURL rt (issuer @ ''/auth?'' @
                        toString (queryParameters reservedScopes authConfig r)))) \<and>
   (\<forall>app u us.
      redirectUri authConfig = None \<and>
      findApplicationById (applications queries) (defaultApplicationId authConfig) = Inr app \<and>
      redirectUris (oidcClientMetadata app) = u # us \<and> u \<noteq> [] \<longrightarrow>
      getIdpInitiatedSamlSsoSignInUrl rt reservedScopes queries issuer authConfig =
        ([FindApplicationById (defaultApplicationId authConfig)],
         newURL rt (issuer @ ''/auth?'' @
                    toString (queryParameters reservedScopes authConfig u)))) \<and>
   (\<forall>e.
      redirectUri authConfig = None \<and>
      findApplicationById (applications queries) (defaultApplicationId authConfig) = Inl e \<longrightarrow>
      getIdpInitiatedSamlSsoSignInUrl rt reservedScopes queries issuer authConfig =
        ([FindApplicationById (defaultApplicationId authConfig)],
         Inl (RequestError ''oidc.invalid_redirect_uri'' 400))) \<and>
   (snd (getIdpInitiatedSamlSsoSignInUrl rt reservedScopes queries issuer authConfig) =
      Inl (RequestError ''oidc.invalid_redirect_uri'' 400) \<longleftrightarrow>
    redirectUri authConfig = Some [] \<or>
    redirectUri authConfig = None \<and>
    (case findApplicationById (applications queries) (defaultApplicationId authConfig) of
       Inl e \<Rightarrow> True
     | Inr app \<Rightarrow>
         (case redirectUris (oidcClientMetadata app) of
            [] \<Rightarrow> True
          | u # us \<Rightarrow> u = [])))"
  by (auto simp: getIdpInitiatedSamlSsoSignInUrl_def resolveRedirectUri_def trySafe_def
        truthy_def RequestError_code_def newURL_def
        split: option.splits sum.splits list.splits)

lemma example_redirect_fields:
  "redirectUri acPlain = Some ''https://cb''"
  "redirectUri (authConfigFor a) = None"
  "redirectUri acEmptyRedirect = Some []"
  "defaultApplicationId acEmptyRedirect = ''a1''"
  "redirectUris (oidcClientMetadata appTraditional) =
     [''https://app.example/cb'', ''https://app.example/other'']"
  "redirectUris (oidcClientMetadata appNoUris) = []"
  by (simp_all add: acPlain_def authConfigFor_def acEmptyRedirect_def appTraditional_def
        appNoUris_def)

lemma example_lookup_url:
  "newURL exampleRuntime
     (''https://issuer.example'' @ ''/auth?'' @
      toString (queryParameters exampleReservedScopes (authConfigFor ''a1'')
                  ''https://app.example/cb'')) =
   Inr (URL ''https://issuer.example/auth?client_id=a1&redirect_uri=https%3A%2F%2Fapp.example%2Fcb&response_type=code&prompt=login&direct_sign_in=sso%3Ac1&scope=openid+offline_access+profile+a+b'')"
  by (simp add: url_eval authConfigFor_def exampleReservedScopes_def exampleRuntime_def)

theorem getIdpInitiatedSamlSsoSignInUrl_redirectUri_witness:
  "redirectUri (authConfigFor ''a1'') = None \<and>
   findApplicationById (applications exampleQueries) (defaultApplicationId (authConfigFor ''a1'')) =
     Inr appTraditional \<and>
   redirectUris (oidcClientMetadata appTraditional) =
     [''https://app.example/cb'', ''https://app.example/other''] \<and>
   getIdpInitiatedSamlSsoSignInUrl exampleRuntime exampleReservedScopes exampleQueries
       ''https://issuer.example'' (authConfigFor ''a1'') =
     ([FindApplicationById ''a1''],
      Inr (URL ''https://issuer.example/auth?client_id=a1&redirect_uri=https%3A%2F%2Fapp.example%2Fcb&response_type=code&prompt=login&direct_sign_in=sso%3Ac1&scope=openid+offline_access+profile+a+b'')) \<and>
   findApplicationById (applications exampleQueries) (defaultApplicationId (authConfigFor ''a9'')) =
     Inl (RequestError ''entity.not_exists_with_id'' 404) \<and>
   getIdpInitiatedSamlSsoSignInUrl exampleRuntime exampleReservedScopes exampleQueries
       ''https://issuer.example'' (authConfigFor ''a9'') =
     ([FindApplicationById ''a9''], Inl (RequestError ''oidc.invalid_redirect_uri'' 400)) \<and>
   findApplicationById (applications exampleQueries) (defaultApplicationId (authConfigFor ''a4'')) =
     Inr appNoUris \<and>
   redirectUris (oidcClientMetadata appNoUris) = [] \<and>
   snd (getIdpInitiatedSamlSsoSignInUrl exampleRuntime exampleReservedScopes exampleQueries
       ''https://issuer.example'' (authConfigFor ''a4'')) =
     Inl (RequestError ''oidc.invalid_redirect_uri'' 400)"
proof -
  note ex = example_redirect_fields example_findApplicationById authConfigFor_application
  from getIdpInitiatedSamlSsoSignInUrl_redirectUri
         [of "authConfigFor ''a1''" exampleRuntime exampleReservedScopes exampleQueries
             "''https://issuer.example''"]
  have found: "getIdpInitiatedSamlSsoSignInUrl exampleRuntime exampleReservedScopes exampleQueries
       ''https://issuer.example'' (authConfigFor ''a1'') =
     ([FindApplicationById ''a1''],
      Inr (URL ''https://issuer.example/auth?client_id=a1&redirect_uri=https%3A%2F%2Fapp.example%2Fcb&response_type=code&prompt=login&direct_sign_in=sso%3Ac1&scope=openid+offline_access+profile+a+b''))"
    unfolding example_lookup_url [symmetric] by (simp add: ex)
  from getIdpInitiatedSamlSsoSignInUrl_redirectUri
         [of "authConfigFor ''a9''" exampleRuntime exampleReservedScopes exampleQueries
             "''https://issuer.example''"]
  have failed: "getIdpInitiatedSamlSsoSignInUrl exampleRuntime exampleReservedScopes exampleQueries
       ''https://issuer.example'' (authConfigFor ''a9'') =
     ([FindApplicationById ''a9''], Inl (RequestError ''oidc.invalid_redirect_uri'' 400))"
    by (simp add: ex)
  from getIdpInitiatedSamlSsoSignInUrl_redirectUri
         [of "authConfigFor ''a4''" exampleRuntime exampleReservedScopes exampleQueries
             "''https://issuer.example''"]
  have none: "snd (getIdpInitiatedSamlSsoSignInUrl exampleRuntime exampleReservedScopes
       exampleQueries ''https://issuer.example'' (authConfigFor ''a4'')) =
     Inl (RequestError ''oidc.invalid_redirect_uri'' 400)"
    by (simp add: ex)
  show ?thesis
    by (simp add: ex found failed none)
qed

text \<open>
  The statement "raises if and only if neither path yields a redirect URI" fails: with
  \<open>redirectUri\<close> set to the empty string and a default application that has registered
  redirect URIs, the operation raises, and the application is never consulted.
\<close>

theorem getIdpInitiatedSamlSsoSignInUrl_redirectUri_counterexample:
  "redirectUri acEmptyRedirect = Some [] \<and>
   findApplicationById (applications exampleQueries) (defaultApplicationId acEmptyRedirect) =
     Inr appTraditional \<and>
   redirectUris (oidcClientMetadata appTraditional) =
     [''https://app.example/cb'', ''https://app.example/other''] \<and>
   getIdpInitiatedSamlSsoSignInUrl exampleRuntime exampleReservedScopes exampleQueries
       ''https://issuer.example'' acEmptyRedirect =
     ([], Inl (RequestError ''oidc.invalid_redirect_uri'' 400))"
  by (simp add: example_redirect_fields example_findApplicationById
        getIdpInitiatedSamlSsoSignInUrl_def resolveRedirectUri_def truthy_def
        RequestError_code_def)

text \<open>
  C10. The extra parameters are spread after the standard entries, so an entry of
  \<open>authParameters\<close> (an object: each key once) whose key is one of the five standard keys
  replaces the standard value: in the query of the issued URL (the entries its query
  string reads back as) that key appears once, with the value \<open>authParameters\<close> gives it.
\<close>

theorem getIdpInitiatedSamlSsoSignInUrl_override:
  assumes "distinct (map fst (authParameters authConfig))"
    and "snd (resolveRedirectUri queries authConfig) = Some uri" and "uri \<noteq> []"
    and "(k, v) \<in> set (authParameters authConfig)"
    and "k \<in> set [''client_id'', ''redirect_uri'', ''response_type'', ''prompt'', ''direct_sign_in'']"
  shows "\<exists>params.
           snd (getIdpInitiatedSamlSsoSignInUrl rt reservedScopes queries issuer authConfig) =
             newURL rt (issuer @ ''/auth?'' @ toString params) \<and>
           parseQuery (toString params) = params \<and>
           map_of params k = Some v \<and>
           (k, v) \<in> set params \<and>
           (\<forall>v'. (k, v') \<in> set params \<longrightarrow> v' = v)"
proof -
  let ?params = "queryParameters reservedScopes authConfig uri"
  have d: "distinct (map fst ?params)"
    by (rule distinct_keys_queryParameters)
  from assms(1,4) have "map_of (authParameters authConfig) k = Some v"
    by simp
  moreover from assms(5) have "k \<noteq> ''scope''"
    by auto
  ultimately have look: "map_of ?params k = Some v"
    by (simp add: map_of_queryParameters [OF assms(1)] map_add_def)
  with d have mem: "(k, v) \<in> set ?params"
    by simp
  with d have only: "\<forall>v'. (k, v') \<in> set ?params \<longrightarrow> v' = v"
    by (blast dest: eq_key_imp_eq_value)
  have "snd (getIdpInitiatedSamlSsoSignInUrl rt reservedScopes queries issuer authConfig) =
          newURL rt (issuer @ ''/auth?'' @ toString ?params)"
    by (simp add: getIdpInitiatedSamlSsoSignInUrl_resolved [OF assms(2,3)])
  with look mem only parseQuery_toString [of ?params] show ?thesis
    by blast
qed

lemma example_override_resolved:
  "snd (resolveRedirectUri exampleQueries acOverride) = Some ''https://cb''"
  by (simp add: resolveRedirectUri_def acOverride_def)

theorem getIdpInitiatedSamlSsoSignInUrl_override_witness:
  "distinct (map fst (authParameters acOverride)) \<and>
   snd (resolveRedirectUri exampleQueries acOverride) = Some ''https://cb'' \<and>
   ''https://cb'' \<noteq> [] \<and>
   (''client_id'', ''x'') \<in> set (authParameters acOverride) \<and>
   defaultApplicationId acOverride = ''a1'' \<and>
   (\<exists>params.
      snd (getIdpInitiatedSamlSsoSignInUrl exampleRuntime exampleReservedScopes exampleQueries
             ''https://issuer.example'' acOverride) =
        newURL exampleRuntime (''https://issuer.example'' @ ''/auth?'' @ toString params) \<and>
      map_of params ''client_id'' = Some ''x'' \<and>
      (''client_id'', ''a1'') \<notin> set params)"
proof -
  have obj: "distinct (map fst (authParameters acOverride))"
    by (simp add: acOverride_def)
  have uri: "''https://cb'' \<noteq> []" by simp
  have entry: "(''client_id'', ''x'') \<in> set (authParameters acOverride)"
    by (simp add: acOverride_def)
  have key: "''client_id'' \<in> set [''client_id'', ''redirect_uri'', ''response_type'', ''prompt'',
                                  ''direct_sign_in'']"
    by simp
  have app: "defaultApplicationId acOverride = ''a1''"
    by (simp add: acOverride_def)
  from getIdpInitiatedSamlSsoSignInUrl_override
         [OF obj example_override_resolved uri entry key, of exampleRuntime exampleReservedScopes
             "''https://issuer.example''"]
  obtain params where
    url: "snd (getIdpInitiatedSamlSsoSignInUrl exampleRuntime exampleReservedScopes exampleQueries
             ''https://issuer.example'' acOverride) =
        newURL exampleRuntime (''https://issuer.example'' @ ''/auth?'' @ toString params)" and
    look: "map_of params ''client_id'' = Some ''x''" and
    only: "\<forall>v'. (''client_id'', v') \<in> set params \<longrightarrow> v' = ''x''"
    by blast
  from only have "(''client_id'', ''a1'') \<notin> set params"
    by auto
  with url look have "\<exists>params.
      snd (getIdpInitiatedSamlSsoSignInUrl exampleRuntime exampleReservedScopes exampleQueries
             ''https://issuer.example'' acOverride) =
        newURL exampleRuntime (''https://issuer.example'' @ ''/auth?'' @ toString params) \<and>
      map_of params ''client_id'' = Some ''x'' \<and>
      (''client_id'', ''a1'') \<notin> set params"
    by blast
  with obj example_override_resolved uri entry app show ?thesis
    by (intro conjI)
qed

subsection \<open>Scope normalisation\<close>

text \<open>
  C8. The scope value of the query is \<open>withReservedScopes\<close> of the tokens of the
  requested scope string split at each space (no tokens when \<open>authParameters\<close> has no
  scope): the tokens of the result, joined by single spaces, are each reserved scope and
  each requested token, once. The scope entry is the last of the query (also as the query
  string reads back) and the only one with that key. Where no reserved scope contains a
  space, splitting the value gives these tokens back.
\<close>

theorem getIdpInitiatedSamlSsoSignInUrl_scope:
  assumes "snd (resolveRedirectUri queries authConfig) = Some uri" and "uri \<noteq> []"
    and "requested = (case getProp (authParameters authConfig) ''scope'' of
                        None \<Rightarrow> []
                      | Some s \<Rightarrow> split CHR '' '' s)"
  shows "\<exists>others tokens.
           snd (getIdpInitiatedSamlSsoSignInUrl rt reservedScopes queries issuer authConfig) =
             newURL rt (issuer @ ''/auth?'' @
                        toString (others @ [(''scope'', join '' '' tokens)])) \<and>
           parseQuery (toString (others @ [(''scope'', join '' '' tokens)])) =
             others @ [(''scope'', join '' '' tokens)] \<and>
           ''scope'' \<notin> fst ` set others \<and>
           distinct tokens \<and>
           set tokens = set reservedScopes \<union> set requested \<and>
           ((\<forall>r \<in> set reservedScopes. CHR '' '' \<notin> set r) \<and> tokens \<noteq> [] \<longrightarrow>
              split CHR '' '' (join '' '' tokens) = tokens)"
proof -
  let ?others = "ownEntries
       (objectLiteral
          [(''client_id'', defaultApplicationId authConfig),
           (''redirect_uri'', uri),
           (''response_type'', ''code''),
           (''prompt'', ''login''),
           (''direct_sign_in'', ''sso:'' @ connectorId authConfig)]
          (restWithout ''scope'' (authParameters authConfig)))"
  let ?tokens = "uniq (reservedScopes @ requested)"
  have q: "queryParameters reservedScopes authConfig uri =
             ?others @ [(''scope'', join '' '' ?tokens)]"
    by (simp add: queryParameters_unfold withReservedScopes_def assms(3) getProp_def)
  have req: "\<forall>t \<in> set requested. CHR '' '' \<notin> set t"
    by (auto simp: assms(3) dest: split_no_sep split: option.splits)
  have again: "(\<forall>r \<in> set reservedScopes. CHR '' '' \<notin> set r) \<and> ?tokens \<noteq> [] \<longrightarrow>
              split CHR '' '' (join '' '' ?tokens) = ?tokens"
    using req by (auto intro!: split_join simp: set_uniq)
  have "snd (getIdpInitiatedSamlSsoSignInUrl rt reservedScopes queries issuer authConfig) =
          newURL rt (issuer @ ''/auth?'' @ toString (?others @ [(''scope'', join '' '' ?tokens)]))"
    by (simp add: getIdpInitiatedSamlSsoSignInUrl_resolved [OF assms(1,2)] q)
  moreover have "''scope'' \<notin> fst ` set ?others"
    by (rule scope_not_in_literal)
  moreover have "distinct ?tokens" "set ?tokens = set reservedScopes \<union> set requested"
    by (simp_all add: distinct_uniq set_uniq)
  ultimately show ?thesis
    using again parseQuery_toString [of "?others @ [(''scope'', join '' '' ?tokens)]"] by blast
qed

lemma example_scoped:
  "snd (resolveRedirectUri exampleQueries acScoped) = Some ''https://cb''"
  "(case getProp (authParameters acScoped) ''scope'' of
      None \<Rightarrow> []
    | Some s \<Rightarrow> split CHR '' '' s) = [''profile'', ''custom'', ''custom'']"
  by (simp_all add: resolveRedirectUri_def acScoped_def getProp_def)

lemma example_scoped_url:
  "getIdpInitiatedSamlSsoSignInUrl exampleRuntime exampleReservedScopes exampleQueries
     ''https://issuer.example'' acScoped =
   ([], Inr (URL ''https://issuer.example/auth?client_id=a1&redirect_uri=https%3A%2F%2Fcb&response_type=code&prompt=login&direct_sign_in=sso%3Ac1&scope=openid+offline_access+profile+custom''))"
  by (simp add: url_eval acScoped_def exampleReservedScopes_def exampleRuntime_def)

theorem getIdpInitiatedSamlSsoSignInUrl_scope_witness:
  "snd (resolveRedirectUri exampleQueries acScoped) = Some ''https://cb'' \<and>
   ''https://cb'' \<noteq> [] \<and>
   [''profile'', ''custom'', ''custom''] =
     (case getProp (authParameters acScoped) ''scope'' of
        None \<Rightarrow> []
      | Some s \<Rightarrow> split CHR '' '' s) \<and>
   (\<exists>others tokens.
      snd (getIdpInitiatedSamlSsoSignInUrl exampleRuntime exampleReservedScopes exampleQueries
             ''https://issuer.example'' acScoped) =
        newURL exampleRuntime
          (''https://issuer.example'' @ ''/auth?'' @
           toString (others @ [(''scope'', join '' '' tokens)])) \<and>
      ''scope'' \<notin> fst ` set others \<and>
      distinct tokens \<and>
      set tokens = {''openid'', ''offline_access'', ''profile'', ''custom''} \<and>
      split CHR '' '' (join '' '' tokens) = tokens) \<and>
   getIdpInitiatedSamlSsoSignInUrl exampleRuntime exampleReservedScopes exampleQueries
     ''https://issuer.example'' acScoped =
   ([], Inr (URL ''https://issuer.example/auth?client_id=a1&redirect_uri=https%3A%2F%2Fcb&response_type=code&prompt=login&direct_sign_in=sso%3Ac1&scope=openid+offline_access+profile+custom''))"
proof -
  have uri: "''https://cb'' \<noteq> []" by simp
  have reserved: "\<forall>r \<in> set exampleReservedScopes. CHR '' '' \<notin> set r"
    by (simp add: exampleReservedScopes_def)
  from getIdpInitiatedSamlSsoSignInUrl_scope
         [OF example_scoped(1) uri example_scoped(2) [symmetric],
          of exampleRuntime exampleReservedScopes "''https://issuer.example''"]
  obtain others tokens where
    url: "snd (getIdpInitiatedSamlSsoSignInUrl exampleRuntime exampleReservedScopes exampleQueries
             ''https://issuer.example'' acScoped) =
        newURL exampleRuntime
          (''https://issuer.example'' @ ''/auth?'' @
           toString (others @ [(''scope'', join '' '' tokens)]))" and
    last: "''scope'' \<notin> fst ` set others" and
    once: "distinct tokens" and
    all: "set tokens = set exampleReservedScopes \<union> set [''profile'', ''custom'', ''custom'']" and
    again: "(\<forall>r \<in> set exampleReservedScopes. CHR '' '' \<notin> set r) \<and> tokens \<noteq> [] \<longrightarrow>
              split CHR '' '' (join '' '' tokens) = tokens"
    by blast
  from all have all': "set tokens = {''openid'', ''offline_access'', ''profile'', ''custom''}"
    by (auto simp: exampleReservedScopes_def)
  have "''openid'' \<in> set tokens"
    unfolding all' by simp
  then have "tokens \<noteq> []"
    by (cases tokens) simp_all
  with reserved have "(\<forall>r \<in> set exampleReservedScopes. CHR '' '' \<notin> set r) \<and> tokens \<noteq> []"
    by (rule conjI)
  with again have readable: "split CHR '' '' (join '' '' tokens) = tokens"
    by (rule mp)
  from url last once all' readable have "\<exists>others tokens.
      snd (getIdpInitiatedSamlSsoSignInUrl exampleRuntime exampleReservedScopes exampleQueries
             ''https://issuer.example'' acScoped) =
        newURL exampleRuntime
          (''https://issuer.example'' @ ''/auth?'' @
           toString (others @ [(''scope'', join '' '' tokens)])) \<and>
      ''scope'' \<notin> fst ` set others \<and>
      distinct tokens \<and>
      set tokens = {''openid'', ''offline_access'', ''profile'', ''custom''} \<and>
      split CHR '' '' (join '' '' tokens) = tokens"
    by blast
  with example_scoped(1) uri example_scoped(2) [symmetric] example_scoped_url show ?thesis
    by (intro conjI)
qed

end
